theory Spec2Isabelle
  imports Complex_Main "HOL-Library.Word"
begin

section \<open>JavaScript strings\<close>

text \<open>
  A JavaScript string is a finite sequence of 16-bit code units. Literals of the source
  are ASCII and are written with \<open>js\<close>.
\<close>

type_synonym cu = "16 word"
type_synonym jsstring = "cu list"

definition js :: "string \<Rightarrow> jsstring" where
  "js s = map (\<lambda>c. of_nat (of_char c)) s"

text \<open>
  The code units matched by \<open>\s\<close> in a regular expression and stripped by
  \<open>String.prototype.trim\<close>: WhiteSpace and LineTerminator of ECMAScript.
\<close>

definition isLineTerminator :: "cu \<Rightarrow> bool" where
  "isLineTerminator c = (c = 0xA \<or> c = 0xD \<or> c = 0x2028 \<or> c = 0x2029)"

definition isWhiteSpace :: "cu \<Rightarrow> bool" where
  "isWhiteSpace c =
     (c = 0x9 \<or> c = 0xB \<or> c = 0xC \<or> c = 0x20 \<or> c = 0xA0 \<or> c = 0x1680
      \<or> (0x2000 \<le> c \<and> c \<le> 0x200A) \<or> c = 0x202F \<or> c = 0x205F \<or> c = 0x3000
      \<or> c = 0xFEFF \<or> isLineTerminator c)"

definition trim :: "jsstring \<Rightarrow> jsstring" where
  "trim s = rev (dropWhile isWhiteSpace (rev (dropWhile isWhiteSpace s)))"

text \<open>
  \<open>s.replace(/\s+/g, r)\<close>: every maximal run of white space becomes one copy of \<open>r\<close>.
\<close>

function replace_ws :: "jsstring \<Rightarrow> jsstring \<Rightarrow> jsstring" where
  "replace_ws r [] = []"
| "replace_ws r (c # cs) =
     (if isWhiteSpace c then r @ replace_ws r (dropWhile isWhiteSpace cs)
      else c # replace_ws r cs)"
  by pat_completeness auto
termination
  by (relation "measure (\<lambda>(r, s). length s)") (auto simp: length_dropWhile_le less_Suc_eq_le)

fun starts_with :: "jsstring \<Rightarrow> jsstring \<Rightarrow> bool" where
  "starts_with [] s = True"
| "starts_with (l # ls) [] = False"
| "starts_with (l # ls) (c # cs) = (l = c \<and> starts_with ls cs)"

text \<open>
  \<open>s.replace(p, r)\<close> with a string pattern: only the first occurrence of \<open>p\<close> is
  replaced (\<open>r\<close> holds no \<open>$\<close> in the source).
\<close>

fun replace_first :: "jsstring \<Rightarrow> jsstring \<Rightarrow> jsstring \<Rightarrow> jsstring" where
  "replace_first p r [] = (if p = [] then r else [])"
| "replace_first p r (c # cs) =
     (if starts_with p (c # cs) then r @ drop (length p) (c # cs)
      else c # replace_first p r cs)"

section \<open>Regular expressions\<close>

text \<open>
  The fragment of ECMAScript regular expressions that the source uses: literal text, a
  quantified character class (\<open>\s*\<close>, \<open>.*?\<close>, \<open>[^"]*\<close>, \<open>[^:]+\<close>, \<open>[^>]*\<close>) and one
  capturing group. The matcher is the backtracking one of the language: a greedy
  quantifier tries the longest repetition first, a lazy one the shortest, and the rest of
  the pattern is the continuation.
\<close>

datatype cls = Space | Dot | Not cu

fun cls_ok :: "cls \<Rightarrow> cu \<Rightarrow> bool" where
  "cls_ok Space c = isWhiteSpace c"
| "cls_ok Dot c = (\<not> isLineTerminator c)"
| "cls_ok (Not d) c = (c \<noteq> d)"

datatype atom = Lit jsstring | Star cls | LazyStar cls | Plus cls | GOpen | GClose

text \<open>
  \<open>rx_match as s g c\<close> matches the atoms \<open>as\<close> at the start of \<open>s\<close>; \<open>g\<close> is the input
  where the group was opened and \<open>c\<close> the text captured so far (\<open>None\<close> is undefined).
\<close>

function (sequential) rx_match ::
  "atom list \<Rightarrow> jsstring \<Rightarrow> jsstring \<Rightarrow> jsstring option \<Rightarrow> jsstring option option" where
  "rx_match [] s g c = Some c"
| "rx_match (Lit l # as) s g c =
     (if starts_with l s then rx_match as (drop (length l) s) g c else None)"
| "rx_match (GOpen # as) s g c = rx_match as s s c"
| "rx_match (GClose # as) s g c = rx_match as s g (Some (take (length g - length s) g))"
| "rx_match (Star p # as) [] g c = rx_match as [] g c"
| "rx_match (Star p # as) (x # xs) g c =
     (if cls_ok p x
      then (case rx_match (Star p # as) xs g c of
              Some r \<Rightarrow> Some r
            | None \<Rightarrow> rx_match as (x # xs) g c)
      else rx_match as (x # xs) g c)"
| "rx_match (LazyStar p # as) [] g c = rx_match as [] g c"
| "rx_match (LazyStar p # as) (x # xs) g c =
     (case rx_match as (x # xs) g c of
        Some r \<Rightarrow> Some r
      | None \<Rightarrow> if cls_ok p x then rx_match (LazyStar p # as) xs g c else None)"
| "rx_match (Plus p # as) [] g c = None"
| "rx_match (Plus p # as) (x # xs) g c =
     (if cls_ok p x then rx_match (Star p # as) xs g c else None)"
  by pat_completeness auto
termination
  by (relation "measures [\<lambda>(as, s, g, c). length s, \<lambda>(as, s, g, c). length as]") auto

text \<open>
  \<open>s.match(re)\<close> for a regular expression without the \<open>g\<close> flag: the first start index
  at which the pattern matches wins. The result is \<open>None\<close> for \<open>null\<close> and otherwise the
  value of \<open>match[1]\<close>.
\<close>

fun String_match :: "jsstring \<Rightarrow> atom list \<Rightarrow> jsstring option option" where
  "String_match [] as = rx_match as [] [] None"
| "String_match (x # xs) as =
     (case rx_match as (x # xs) (x # xs) None of
        Some r \<Rightarrow> Some r
      | None \<Rightarrow> String_match xs as)"

section \<open>encodeURIComponent\<close>

text \<open>
  Every code point outside the unreserved set is written as the percent-escaped bytes of
  its UTF-8 form; an unpaired surrogate raises URIError (\<open>None\<close>).
\<close>

definition uriUnescaped :: "cu \<Rightarrow> bool" where
  "uriUnescaped c =
     ((0x41 \<le> c \<and> c \<le> 0x5A) \<or> (0x61 \<le> c \<and> c \<le> 0x7A) \<or> (0x30 \<le> c \<and> c \<le> 0x39)
      \<or> c = 0x2D \<or> c = 0x5F \<or> c = 0x2E \<or> c = 0x21 \<or> c = 0x7E \<or> c = 0x2A
      \<or> c = 0x27 \<or> c = 0x28 \<or> c = 0x29)"

definition hexdigit :: "nat \<Rightarrow> cu" where
  "hexdigit n = (if n < 10 then of_nat (48 + n) else of_nat (55 + n))"

definition pct :: "nat \<Rightarrow> jsstring" where
  "pct b = [0x25, hexdigit (b div 16), hexdigit (b mod 16)]"

definition utf8 :: "nat \<Rightarrow> nat list" where
  "utf8 cp =
     (if cp < 0x80 then [cp]
      else if cp < 0x800 then [0xC0 + cp div 64, 0x80 + cp mod 64]
      else if cp < 0x10000 then [0xE0 + cp div 4096, 0x80 + cp div 64 mod 64, 0x80 + cp mod 64]
      else [0xF0 + cp div 262144, 0x80 + cp div 4096 mod 64, 0x80 + cp div 64 mod 64,
            0x80 + cp mod 64])"

definition pct_utf8 :: "nat \<Rightarrow> jsstring" where
  "pct_utf8 cp = concat (map pct (utf8 cp))"

definition isHighSurrogate :: "cu \<Rightarrow> bool" where
  "isHighSurrogate c = (0xD800 \<le> c \<and> c \<le> 0xDBFF)"

definition isLowSurrogate :: "cu \<Rightarrow> bool" where
  "isLowSurrogate c = (0xDC00 \<le> c \<and> c \<le> 0xDFFF)"

definition pair_cp :: "cu \<Rightarrow> cu \<Rightarrow> nat" where
  "pair_cp c d = 0x10000 + (unat c - 0xD800) * 0x400 + (unat d - 0xDC00)"

fun encodeURIComponent :: "jsstring \<Rightarrow> jsstring option" where
  "encodeURIComponent [] = Some []"
| "encodeURIComponent (c # cs) =
     (if uriUnescaped c then map_option ((#) c) (encodeURIComponent cs)
      else if isLowSurrogate c then None
      else if isHighSurrogate c then
        (case cs of
           [] \<Rightarrow> None
         | d # ds \<Rightarrow>
             if isLowSurrogate d
             then map_option ((@) (pct_utf8 (pair_cp c d))) (encodeURIComponent ds)
             else None)
      else map_option ((@) (pct_utf8 (unat c))) (encodeURIComponent cs))"

section \<open>JSON.parse\<close>

datatype json = JNull | JBool bool | JNum bool nat int | JStr jsstring
  | JArr "json list" | JObj "(jsstring \<times> json) list"

definition isJSONWhiteSpace :: "cu \<Rightarrow> bool" where
  "isJSONWhiteSpace c = (c = 0x9 \<or> c = 0xA \<or> c = 0xD \<or> c = 0x20)"

definition skip_ws :: "jsstring \<Rightarrow> jsstring" where
  "skip_ws s = dropWhile isJSONWhiteSpace s"

definition isDigit :: "cu \<Rightarrow> bool" where
  "isDigit c = (0x30 \<le> c \<and> c \<le> 0x39)"

definition hexval :: "cu \<Rightarrow> nat option" where
  "hexval c =
     (if 0x30 \<le> c \<and> c \<le> 0x39 then Some (unat c - 0x30)
      else if 0x41 \<le> c \<and> c \<le> 0x46 then Some (unat c - 0x37)
      else if 0x61 \<le> c \<and> c \<le> 0x66 then Some (unat c - 0x57)
      else None)"

definition hex4 :: "cu \<Rightarrow> cu \<Rightarrow> cu \<Rightarrow> cu \<Rightarrow> cu option" where
  "hex4 a b c d =
     (case (hexval a, hexval b, hexval c, hexval d) of
        (Some w, Some x, Some y, Some z) \<Rightarrow> Some (of_nat (((w * 16 + x) * 16 + y) * 16 + z))
      | _ \<Rightarrow> None)"

definition escape_char :: "cu \<Rightarrow> cu option" where
  "escape_char e =
     (if e = 0x22 \<or> e = 0x5C \<or> e = 0x2F then Some e
      else if e = 0x62 then Some 0x8
      else if e = 0x66 then Some 0xC
      else if e = 0x6E then Some 0xA
      else if e = 0x72 then Some 0xD
      else if e = 0x74 then Some 0x9
      else None)"

definition consr :: "'a \<Rightarrow> ('a list \<times> 'b) option \<Rightarrow> ('a list \<times> 'b) option" where
  "consr x r = (case r of None \<Rightarrow> None | Some (xs, rest) \<Rightarrow> Some (x # xs, rest))"

fun pstring :: "jsstring \<Rightarrow> (jsstring \<times> jsstring) option" where
  "pstring [] = None"
| "pstring (c # cs) =
     (if c = 0x22 then Some ([], cs)
      else if c = 0x5C then
        (case cs of
           [] \<Rightarrow> None
         | e # r \<Rightarrow>
             if e = 0x75 then
               (case r of
                  h1 # h2 # h3 # h4 # r' \<Rightarrow>
                    (case hex4 h1 h2 h3 h4 of
                       None \<Rightarrow> None
                     | Some u \<Rightarrow> consr u (pstring r'))
                | _ \<Rightarrow> None)
             else
               (case escape_char e of
                  None \<Rightarrow> None
                | Some x \<Rightarrow> consr x (pstring r)))
      else if c < 0x20 then None
      else consr c (pstring cs))"

definition digits_val :: "jsstring \<Rightarrow> nat" where
  "digits_val ds = foldl (\<lambda>a d. 10 * a + (unat d - 0x30)) 0 ds"

definition pint :: "jsstring \<Rightarrow> (jsstring \<times> jsstring) option" where
  "pint s =
     (case s of
        [] \<Rightarrow> None
      | c # r \<Rightarrow>
          if c = 0x30 then Some ([c], r)
          else if isDigit c then Some (takeWhile isDigit s, dropWhile isDigit s)
          else None)"

definition pfrac :: "jsstring \<Rightarrow> (jsstring \<times> jsstring) option" where
  "pfrac s =
     (case s of
        [] \<Rightarrow> Some ([], s)
      | c # r \<Rightarrow>
          if c = 0x2E then
            (if takeWhile isDigit r = [] then None
             else Some (takeWhile isDigit r, dropWhile isDigit r))
          else Some ([], s))"

definition pexp :: "jsstring \<Rightarrow> (int \<times> jsstring) option" where
  "pexp s =
     (case s of
        [] \<Rightarrow> Some (0, s)
      | c # r \<Rightarrow>
          if c = 0x65 \<or> c = 0x45 then
            (let (neg, r') = (case r of
                                [] \<Rightarrow> (False, r)
                              | d # t \<Rightarrow> if d = 0x2D then (True, t)
                                         else if d = 0x2B then (False, t) else (False, r))
             in if takeWhile isDigit r' = [] then None
                else Some ((if neg then - int (digits_val (takeWhile isDigit r'))
                            else int (digits_val (takeWhile isDigit r'))),
                           dropWhile isDigit r'))
          else Some (0, s))"

definition pnumber :: "jsstring \<Rightarrow> (json \<times> jsstring) option" where
  "pnumber s =
     (let (neg, s1) = (case s of [] \<Rightarrow> (False, s) | c # r \<Rightarrow> if c = 0x2D then (True, r) else (False, s))
      in case pint s1 of
           None \<Rightarrow> None
         | Some (ip, s2) \<Rightarrow>
             (case pfrac s2 of
                None \<Rightarrow> None
              | Some (fp, s3) \<Rightarrow>
                  (case pexp s3 of
                     None \<Rightarrow> None
                   | Some (e, s4) \<Rightarrow>
                       Some (JNum neg (digits_val (ip @ fp)) (e - int (length fp)), s4))))"

text \<open>
  The recursive-descent parser of the JSON grammar: a value, the elements of an array after
  its bracket, the members of an object after its brace. Each gives the value read and the
  rest of the text. The two tests on lengths in \<open>pelems\<close> and \<open>pmembers\<close> are there for
  the termination proof only: \<open>pelems_unguarded\<close> and \<open>pmembers_unguarded\<close> below show
  that they never fail.
\<close>

lemma skip_ws_len [termination_simp]: "skip_ws s = c # r \<Longrightarrow> length r < length s"
proof -
  assume a: "skip_ws s = c # r"
  have "length (skip_ws s) \<le> length s" by (simp add: skip_ws_def length_dropWhile_le)
  with a show ?thesis by simp
qed

function pvalue :: "jsstring \<Rightarrow> (json \<times> jsstring) option"
  and pelems :: "jsstring \<Rightarrow> (json list \<times> jsstring) option"
  and pmembers :: "jsstring \<Rightarrow> ((jsstring \<times> json) list \<times> jsstring) option" where
  "pvalue s =
     (case skip_ws s of
        [] \<Rightarrow> None
      | c # r \<Rightarrow>
          if c = 0x7B then
            (case skip_ws r of
               [] \<Rightarrow> None
             | d # r' \<Rightarrow>
                 if d = 0x7D then Some (JObj [], r')
                 else (case pmembers (d # r') of
                         None \<Rightarrow> None
                       | Some (kvs, r'') \<Rightarrow> Some (JObj kvs, r'')))
          else if c = 0x5B then
            (case skip_ws r of
               [] \<Rightarrow> None
             | d # r' \<Rightarrow>
                 if d = 0x5D then Some (JArr [], r')
                 else (case pelems (d # r') of
                         None \<Rightarrow> None
                       | Some (vs, r'') \<Rightarrow> Some (JArr vs, r'')))
          else if c = 0x22 then
            (case pstring r of None \<Rightarrow> None | Some (t, r') \<Rightarrow> Some (JStr t, r'))
          else if starts_with (js ''true'') (c # r) then Some (JBool True, drop 4 (c # r))
          else if starts_with (js ''false'') (c # r) then Some (JBool False, drop 5 (c # r))
          else if starts_with (js ''null'') (c # r) then Some (JNull, drop 4 (c # r))
          else pnumber (c # r))"
| "pelems s =
     (case pvalue s of
        None \<Rightarrow> None
      | Some (v, r) \<Rightarrow>
          (case skip_ws r of
             [] \<Rightarrow> None
           | c # r' \<Rightarrow>
               if c = 0x5D then Some ([v], r')
               else if c = 0x2C \<and> length r' < length s then consr v (pelems r')
               else None))"
| "pmembers s =
     (case skip_ws s of
        [] \<Rightarrow> None
      | q # r \<Rightarrow>
          if q \<noteq> 0x22 then None
          else (case pstring r of
                  None \<Rightarrow> None
                | Some (k, r1) \<Rightarrow>
                    (case skip_ws r1 of
                       [] \<Rightarrow> None
                     | c1 # r2 \<Rightarrow>
                         if c1 = 0x3A \<and> length r2 < length s then
                           (case pvalue r2 of
                              None \<Rightarrow> None
                            | Some (v, r3) \<Rightarrow>
                                (case skip_ws r3 of
                                   [] \<Rightarrow> None
                                 | c3 # r4 \<Rightarrow>
                                     if c3 = 0x7D then Some ([(k, v)], r4)
                                     else if c3 = 0x2C \<and> length r4 < length s
                                     then consr (k, v) (pmembers r4)
                                     else None))
                         else None)))"
  by pat_completeness auto
termination
  apply (relation "measures [\<lambda>x. case x of Inl s \<Rightarrow> length s | Inr (Inl s) \<Rightarrow> length s | Inr (Inr s) \<Rightarrow> length s,
                             \<lambda>x. case x of Inl s \<Rightarrow> 0 | Inr (Inl s) \<Rightarrow> 1 | Inr (Inr s) \<Rightarrow> 1]")
  apply (auto dest!: skip_ws_len)
  done

declare pvalue.simps [simp del] pelems.simps [simp del] pmembers.simps [simp del]

definition JSON_parse :: "jsstring \<Rightarrow> json option" where
  "JSON_parse text =
     (case pvalue text of
        None \<Rightarrow> None
      | Some (v, r) \<Rightarrow> if skip_ws r = [] then Some v else None)"

section \<open>decodeURIComponent\<close>

text \<open>
  The service worker only encodes. The decoding that C9 speaks of is that of ECMAScript's
  \<open>decodeURIComponent\<close>: an escape \<open>%XX\<close> below \<open>0x80\<close> is that code unit; otherwise
  the number of leading one bits says how many escapes form one UTF-8 sequence, which
  has to be the encoding of a code point (no overlong form, no surrogate, at most
  \<open>0x10FFFF\<close>). Anything else raises URIError (\<open>None\<close>).
\<close>

definition ParseHexOctet :: "cu \<Rightarrow> cu \<Rightarrow> nat option" where
  "ParseHexOctet h1 h2 =
     (case (hexval h1, hexval h2) of
        (Some a, Some b) \<Rightarrow> Some (16 * a + b)
      | _ \<Rightarrow> None)"

definition leading_ones :: "nat \<Rightarrow> nat" where
  "leading_ones B =
     (if B < 0x80 then 0 else if B < 0xC0 then 1 else if B < 0xE0 then 2
      else if B < 0xF0 then 3 else if B < 0xF8 then 4 else 5)"

fun octets :: "nat \<Rightarrow> jsstring \<Rightarrow> (nat list \<times> jsstring) option" where
  "octets 0 s = Some ([], s)"
| "octets (Suc j) (p # h1 # h2 # s) =
     (if p = 0x25 then
        (case ParseHexOctet h1 h2 of
           None \<Rightarrow> None
         | Some B \<Rightarrow> consr B (octets j s))
      else None)"
| "octets (Suc j) s = None"

definition continuation :: "nat \<Rightarrow> bool" where
  "continuation b = (0x80 \<le> b \<and> b < 0xC0)"

fun utf8_decode :: "nat list \<Rightarrow> nat option" where
  "utf8_decode [b0, b1] =
     (let V = (b0 - 0xC0) * 64 + (b1 - 0x80)
      in if continuation b1 \<and> 0x80 \<le> V then Some V else None)"
| "utf8_decode [b0, b1, b2] =
     (let V = (b0 - 0xE0) * 4096 + (b1 - 0x80) * 64 + (b2 - 0x80)
      in if continuation b1 \<and> continuation b2 \<and> 0x800 \<le> V \<and> \<not> (0xD800 \<le> V \<and> V \<le> 0xDFFF)
         then Some V else None)"
| "utf8_decode [b0, b1, b2, b3] =
     (let V = (b0 - 0xF0) * 262144 + (b1 - 0x80) * 4096 + (b2 - 0x80) * 64 + (b3 - 0x80)
      in if continuation b1 \<and> continuation b2 \<and> continuation b3 \<and> 0x10000 \<le> V \<and> V \<le> 0x10FFFF
         then Some V else None)"
| "utf8_decode bs = None"

definition UTF16EncodeCodePoint :: "nat \<Rightarrow> jsstring" where
  "UTF16EncodeCodePoint cp =
     (if cp < 0x10000 then [of_nat cp]
      else [of_nat (0xD800 + (cp - 0x10000) div 0x400), of_nat (0xDC00 + (cp - 0x10000) mod 0x400)])"

lemma octets_len [termination_simp]: "octets j s = Some (bs, r) \<Longrightarrow> length r \<le> length s"
  by (induction j s arbitrary: bs r rule: octets.induct)
     (fastforce simp: consr_def split: if_splits option.splits)+

function decodeURIComponent :: "jsstring \<Rightarrow> jsstring option" where
  "decodeURIComponent [] = Some []"
| "decodeURIComponent (c # cs) =
     (if c \<noteq> 0x25 then map_option ((#) c) (decodeURIComponent cs)
      else
        (case cs of
           h1 # h2 # r \<Rightarrow>
             (case ParseHexOctet h1 h2 of
                None \<Rightarrow> None
              | Some B \<Rightarrow>
                  if leading_ones B = 0 then map_option ((#) (of_nat B)) (decodeURIComponent r)
                  else if leading_ones B = 1 \<or> 4 < leading_ones B then None
                  else
                    (case octets (leading_ones B - 1) r of
                       None \<Rightarrow> None
                     | Some (bs, r') \<Rightarrow>
                         (case utf8_decode (B # bs) of
                            None \<Rightarrow> None
                          | Some V \<Rightarrow>
                              map_option ((@) (UTF16EncodeCodePoint V)) (decodeURIComponent r'))))
         | _ \<Rightarrow> None))"
  by pat_completeness auto
termination
  by (relation "measure length") (auto dest: octets_len)

text \<open>\<open>String.prototype.isWellFormed\<close>: no surrogate without its partner.\<close>

fun isWellFormed :: "jsstring \<Rightarrow> bool" where
  "isWellFormed [] = True"
| "isWellFormed (c # cs) =
     (if isLowSurrogate c then False
      else if isHighSurrogate c then
        (case cs of [] \<Rightarrow> False | d # ds \<Rightarrow> isLowSurrogate d \<and> isWellFormed ds)
      else isWellFormed cs)"

section \<open>JavaScript values read from JSON\<close>

text \<open>
  A value of the program is \<open>undefined\<close> (\<open>None\<close>) or a value built by \<open>JSON.parse\<close>.
  A number is kept as its exact decimal value \<open>m * 10 ^ e\<close> with a sign; only its sign and
  whether it rounds to zero as a double are ever observed.
\<close>

type_synonym jsval = "json option"

datatype 'a completion = Normal 'a | Throw

text \<open>
  The smallest positive double is \<open>2 ^ -1074\<close>: a decimal value rounds to a non-zero
  double exactly when it is greater than \<open>2 ^ -1075\<close>.
\<close>

definition num_nonzero :: "nat \<Rightarrow> int \<Rightarrow> bool" where
  "num_nonzero m e = (if 0 \<le> e then 0 < m else 10 ^ nat (- e) < m * 2 ^ 1075)"

fun truthy :: "jsval \<Rightarrow> bool" where
  "truthy None = False"
| "truthy (Some JNull) = False"
| "truthy (Some (JBool b)) = b"
| "truthy (Some (JNum neg m e)) = num_nonzero m e"
| "truthy (Some (JStr s)) = (s \<noteq> [])"
| "truthy (Some (JArr xs)) = True"
| "truthy (Some (JObj kvs)) = True"

text \<open>An object built by \<open>JSON.parse\<close> keeps the last value given for a repeated key.\<close>

definition own_property :: "(jsstring \<times> json) list \<Rightarrow> jsstring \<Rightarrow> jsval" where
  "own_property kvs k = map_of (rev kvs) k"

text \<open>
  \<open>v.k\<close> for a name \<open>k\<close> that no built-in prototype defines (the source reads \<open>r\<close>,
  \<open>l\<close>, \<open>f\<close>, \<open>u\<close> and \<open>i\<close>): reading a property of \<open>undefined\<close> or \<open>null\<close> raises
  TypeError, a primitive or an array has no such property.
\<close>

fun get_field :: "jsval \<Rightarrow> jsstring \<Rightarrow> jsval completion" where
  "get_field None k = Throw"
| "get_field (Some JNull) k = Throw"
| "get_field (Some (JObj kvs)) k = Normal (own_property kvs k)"
| "get_field (Some v) k = Normal None"

text \<open>\<open>v[0]\<close>: the first element of an array, the first code unit of a string.\<close>

fun get_index0 :: "jsval \<Rightarrow> jsval completion" where
  "get_index0 None = Throw"
| "get_index0 (Some JNull) = Throw"
| "get_index0 (Some (JArr xs)) = Normal (case xs of [] \<Rightarrow> None | x # _ \<Rightarrow> Some x)"
| "get_index0 (Some (JStr s)) = Normal (case s of [] \<Rightarrow> None | c # _ \<Rightarrow> Some (JStr [c]))"
| "get_index0 (Some (JObj kvs)) = Normal (own_property kvs (js ''0''))"
| "get_index0 (Some v) = Normal None"

text \<open>\<open>v.length\<close>.\<close>

fun get_length :: "jsval \<Rightarrow> jsval completion" where
  "get_length None = Throw"
| "get_length (Some JNull) = Throw"
| "get_length (Some (JArr xs)) = Normal (Some (JNum False (length xs) 0))"
| "get_length (Some (JStr s)) = Normal (Some (JNum False (length s) 0))"
| "get_length (Some (JObj kvs)) = Normal (own_property kvs (js ''length''))"
| "get_length (Some v) = Normal None"

text \<open>
  \<open>Number(s) > 0\<close> for a string: white space is trimmed; the rest is a decimal literal
  (with \<open>Infinity\<close>) or an unsigned hexadecimal, octal or binary literal, anything else
  is NaN.
\<close>

definition radix_pos :: "(cu \<Rightarrow> bool) \<Rightarrow> jsstring \<Rightarrow> bool" where
  "radix_pos ok ds = (ds \<noteq> [] \<and> list_all ok ds \<and> list_ex (\<lambda>d. d \<noteq> 0x30) ds)"

definition dec_pos :: "jsstring \<Rightarrow> bool" where
  "dec_pos u =
     (if u = js ''Infinity'' then True
      else
        (let d1 = takeWhile isDigit u; r1 = dropWhile isDigit u;
             (d2, r2) = (case r1 of
                           [] \<Rightarrow> ([], r1)
                         | c # r \<Rightarrow> if c = 0x2E then (takeWhile isDigit r, dropWhile isDigit r)
                                    else ([], r1))
         in if d1 = [] \<and> d2 = [] then False
            else (case pexp r2 of
                    None \<Rightarrow> False
                  | Some (e, r3) \<Rightarrow>
                      r3 = [] \<and> num_nonzero (digits_val (d1 @ d2)) (e - int (length d2)))))"

definition str_num_pos :: "jsstring \<Rightarrow> bool" where
  "str_num_pos s =
     (case trim s of
        [] \<Rightarrow> False
      | [a] \<Rightarrow> dec_pos [a]
      | a # b # ds \<Rightarrow>
          if a = 0x30 \<and> (b = 0x78 \<or> b = 0x58) then radix_pos (\<lambda>d. hexval d \<noteq> None) ds
          else if a = 0x30 \<and> (b = 0x6F \<or> b = 0x4F) then radix_pos (\<lambda>d. 0x30 \<le> d \<and> d \<le> 0x37) ds
          else if a = 0x30 \<and> (b = 0x62 \<or> b = 0x42) then radix_pos (\<lambda>d. d = 0x30 \<or> d = 0x31) ds
          else if a = 0x2D then False
          else if a = 0x2B then dec_pos (b # ds)
          else dec_pos (a # b # ds))"

text \<open>
  \<open>v > 0\<close> compares numbers: an object or array is first turned into a string. An
  array is the comma-joined strings of its elements; an object is \<open>[object Object]\<close>,
  unless it has an own \<open>toString\<close>, which for a JSON value cannot be called (TypeError).
  \<open>string_gt0\<close> is \<open>Number(String(v)) > 0\<close>, with \<open>null\<close> as the empty string the way
  \<open>join\<close> writes it.
\<close>

fun string_gt0 :: "json \<Rightarrow> bool completion" where
  "string_gt0 JNull = Normal False"
| "string_gt0 (JBool b) = Normal False"
| "string_gt0 (JNum neg m e) = Normal (\<not> neg \<and> num_nonzero m e)"
| "string_gt0 (JStr s) = Normal (str_num_pos s)"
| "string_gt0 (JObj kvs) =
     (if own_property kvs (js ''toString'') \<noteq> None then Throw else Normal False)"
| "string_gt0 (JArr xs) =
     (case xs of
        [] \<Rightarrow> Normal False
      | [x] \<Rightarrow> string_gt0 x
      | _ \<Rightarrow> if list_ex (\<lambda>x. string_gt0 x = Throw) xs then Throw else Normal False)"

fun gt0 :: "jsval \<Rightarrow> bool completion" where
  "gt0 None = Normal False"
| "gt0 (Some (JBool b)) = Normal b"
| "gt0 (Some v) = string_gt0 v"

text \<open>
  \<open>u.replace('#f', '')\<close>: a string method; any other truthy JSON value has no callable
  \<open>replace\<close> (TypeError).
\<close>

fun call_replace :: "jsval \<Rightarrow> jsstring \<Rightarrow> jsstring \<Rightarrow> jsstring completion" where
  "call_replace (Some (JStr s)) p r = Normal (replace_first p r s)"
| "call_replace v p r = Throw"

section \<open>extractPaperIdFromResponse\<close>

text \<open>
  The four patterns of lines 66 to 73, in the order of the array:
  \<^item> index 0: \<^verbatim>\<open>/window\.googleSearchResponse\s*=\s*({.*?});/\<close>
  \<^item> index 1: \<^verbatim>\<open>/"r":\s*\[({.*?})\]/\<close>
  \<^item> index 2: \<^verbatim>\<open>/data-clk="([^"]*)"/\<close>
  \<^item> index 3: \<^verbatim>\<open>/data-href="\/scholar\?q=info:([^:]+):scholar\.google\.com/\<close>

  and the pattern of line 94, \<^verbatim>\<open>/\/scholar\?q=info:([^:]+):scholar\.google\.com/\<close>.
\<close>

definition patterns :: "atom list list" where
  \<open>patterns =
     [[Lit (js ''window.googleSearchResponse''), Star Space, Lit (js ''=''), Star Space,
       GOpen, Lit (js ''{''), LazyStar Dot, Lit (js ''}''), GClose, Lit (js '';'')],
      [Lit (js ''"r":''), Star Space, Lit (js ''[''),
       GOpen, Lit (js ''{''), LazyStar Dot, Lit (js ''}''), GClose, Lit (js '']'')],
      [Lit (js ''data-clk="''), GOpen, Star (Not 0x22), GClose, Lit (js ''"'')],
      [Lit (js ''data-href="/scholar?q=info:''), GOpen, Plus (Not 0x3A), GClose,
       Lit (js '':scholar.google.com'')]]\<close>

definition cite_link_pattern :: "atom list" where
  "cite_link_pattern =
     [Lit (js ''/scholar?q=info:''), GOpen, Plus (Not 0x3A), GClose,
      Lit (js '':scholar.google.com'')]"

text \<open>
  The condition of line 83, \<open>searchData.r && searchData.r.length > 0 && searchData.r[0].l
  && searchData.r[0].l.f && searchData.r[0].l.f.u\<close>, evaluated left to right; on success
  the value of \<open>searchData.r[0].l.f.u\<close> is handed on.
\<close>

definition first_result_url :: "json \<Rightarrow> jsval completion" where
  "first_result_url searchData =
     (case get_field (Some searchData) (js ''r'') of
        Throw \<Rightarrow> Throw
      | Normal r \<Rightarrow>
          if \<not> truthy r then Normal None
          else (case get_length r of
                  Throw \<Rightarrow> Throw
                | Normal n \<Rightarrow>
                    (case gt0 n of
                       Throw \<Rightarrow> Throw
                     | Normal False \<Rightarrow> Normal None
                     | Normal True \<Rightarrow>
                         (case get_index0 r of
                            Throw \<Rightarrow> Throw
                          | Normal r0 \<Rightarrow>
                              (case get_field r0 (js ''l'') of
                                 Throw \<Rightarrow> Throw
                               | Normal l \<Rightarrow>
                                   if \<not> truthy l then Normal None
                                   else (case get_field l (js ''f'') of
                                           Throw \<Rightarrow> Throw
                                         | Normal f \<Rightarrow>
                                             if \<not> truthy f then Normal None
                                             else (case get_field f (js ''u'') of
                                                     Throw \<Rightarrow> Throw
                                                   | Normal u \<Rightarrow>
                                                       if truthy u then Normal u
                                                       else Normal None)))))))"

datatype loop_result = Return "jsstring option" | Fallthrough | Thrown

text \<open>
  The loop over \<open>patterns\<close>, \<open>i\<close> being the index of the head of the remaining list:
  only index 0 and index 3 can return, a match of the others is logged and the loop goes on.
\<close>

fun try_patterns :: "nat \<Rightarrow> atom list list \<Rightarrow> jsstring \<Rightarrow> loop_result" where
  "try_patterns i [] responseText = Fallthrough"
| "try_patterns i (pattern # rest) responseText =
     (case String_match responseText pattern of
        None \<Rightarrow> try_patterns (Suc i) rest responseText
      | Some m1 \<Rightarrow>
          if i = 0 then
            (case m1 of
               None \<Rightarrow> Thrown
             | Some text \<Rightarrow>
                 (case JSON_parse text of
                    None \<Rightarrow> Thrown
                  | Some searchData \<Rightarrow>
                      (case first_result_url searchData of
                         Throw \<Rightarrow> Thrown
                       | Normal None \<Rightarrow> try_patterns (Suc i) rest responseText
                       | Normal (Some u) \<Rightarrow>
                           (case call_replace (Some u) (js ''#f'') [] of
                              Throw \<Rightarrow> Thrown
                            | Normal paperId \<Rightarrow> Return (Some paperId)))))
          else if i = 3 then Return m1
          else try_patterns (Suc i) rest responseText)"

text \<open>The result is \<open>None\<close> for \<open>null\<close> (and for an undefined capture).\<close>

definition extractPaperIdFromResponse :: "jsstring \<Rightarrow> jsstring option" where
  "extractPaperIdFromResponse responseText =
     (case try_patterns 0 patterns responseText of
        Thrown \<Rightarrow> None
      | Return paperId \<Rightarrow> paperId
      | Fallthrough \<Rightarrow>
          (case String_match responseText cite_link_pattern of
             Some citeMatch \<Rightarrow> citeMatch
           | None \<Rightarrow> None))"

section \<open>The collaborators\<close>

text \<open>
  What the service worker does to the outside is recorded as a trace: the URL of each
  \<open>fetch\<close>, the \<open>url\<close> given to each call of \<open>chrome.tabs.create\<close>, and each
  notification handed to \<open>chrome.notifications?.create\<close>.
\<close>

datatype notification =
    BibTexOpened
  | CitationPageOpened
  | FoundSearchResults jsstring
  | SearchingFor jsstring
  | ErrorNotification

datatype event = Fetch jsstring | TabsCreate jsval | Notify notification

text \<open>
  A \<open>fetch\<close> rejects (\<open>NetworkError\<close>) or gives a response with its \<open>ok\<close> flag and the
  outcome of \<open>text()\<close>, which may reject as well (\<open>None\<close>). \<open>chrome.tabs.create\<close>
  resolves or rejects; the environment decides from what happened before and the URL.
\<close>

datatype fetch_result = NetworkError | Response bool "jsstring option"

record env =
  fetch :: "jsstring \<Rightarrow> fetch_result"
  tabs_create :: "event list \<Rightarrow> jsval \<Rightarrow> bool"

text \<open>
  \<open>await chrome.tabs.create({ url })\<close>: the call is recorded whether it succeeds or not.
\<close>

definition create_tab :: "env \<Rightarrow> jsval \<Rightarrow> event list \<Rightarrow> unit completion \<times> event list" where
  "create_tab E url tr =
     (if tabs_create E tr url then Normal () else Throw, tr @ [TabsCreate url])"

section \<open>openScholarSearch\<close>

definition openScholarSearch ::
  "env \<Rightarrow> jsstring \<Rightarrow> event list \<Rightarrow> unit completion \<times> event list" where
  "openScholarSearch E searchTerm tr =
     (case encodeURIComponent searchTerm of
        None \<Rightarrow> (Throw, tr)
      | Some encodedTerm \<Rightarrow>
          create_tab E (Some (JStr (js ''https://scholar.google.com/scholar?hl=en&q='' @ encodedTerm))) tr)"

section \<open>getBibTexFromPaperId\<close>

text \<open>The pattern of line 143: \<^verbatim>\<open>/href="([^"]*)"[^>]*>BibTeX<\/a>/\<close>.\<close>

definition bibtex_anchor_pattern :: "atom list" where
  \<open>bibtex_anchor_pattern =
     [Lit (js ''href="''), GOpen, Star (Not 0x22), GClose, Lit (js ''"''), Star (Not 0x3E),
      Lit (js ''>BibTeX</a>'')]\<close>

definition citeUrl_of :: "jsstring \<Rightarrow> jsstring" where
  "citeUrl_of paperId =
     js ''https://scholar.google.com/scholar?output=gsb-cite&hl=en&q=info:'' @ paperId
       @ js '':scholar.google.com/''"

text \<open>
  The condition of line 125, \<open>citeData && citeData.i && citeData.i[0] &&
  citeData.i[0].l === "BibTeX"\<close>; on success the value of \<open>citeData.i[0].u\<close> is handed on.
  Each read is guarded by the truthiness of its object, so none can raise.
\<close>

definition first_format_url :: "json \<Rightarrow> jsval option" where
  "first_format_url citeData =
     (if \<not> truthy (Some citeData) then None
      else (case get_field (Some citeData) (js ''i'') of
              Throw \<Rightarrow> None
            | Normal i \<Rightarrow>
                if \<not> truthy i then None
                else (case get_index0 i of
                        Throw \<Rightarrow> None
                      | Normal i0 \<Rightarrow>
                          if \<not> truthy i0 then None
                          else (case get_field i0 (js ''l'') of
                                  Throw \<Rightarrow> None
                                | Normal l \<Rightarrow>
                                    if l = Some (JStr (js ''BibTeX''))
                                    then (case get_field i0 (js ''u'') of
                                            Throw \<Rightarrow> None
                                          | Normal u \<Rightarrow> Some u)
                                    else None))))"

text \<open>Lines 161 to 168: the citation page itself is opened.\<close>

definition open_citation_page ::
  "env \<Rightarrow> jsstring \<Rightarrow> event list \<Rightarrow> unit completion \<times> event list" where
  "open_citation_page E citeUrl tr =
     (case create_tab E (Some (JStr citeUrl)) tr of
        (Throw, tr') \<Rightarrow> (Throw, tr')
      | (Normal u, tr') \<Rightarrow> (Normal (), tr' @ [Notify CitationPageOpened]))"

text \<open>
  Lines 141 to 159, the handler of the inner \<open>try\<close>: the anchor labelled BibTeX is looked
  for in the raw text; without one, control goes on to line 161.
\<close>

definition html_parsing ::
  "env \<Rightarrow> jsstring \<Rightarrow> jsstring \<Rightarrow> event list \<Rightarrow> unit completion \<times> event list" where
  "html_parsing E citeText citeUrl tr =
     (case String_match citeText bibtex_anchor_pattern of
        None \<Rightarrow> open_citation_page E citeUrl tr
      | Some bibTexMatch \<Rightarrow>
          (case create_tab E (map_option JStr bibTexMatch) tr of
             (Throw, tr') \<Rightarrow> (Throw, tr')
           | (Normal u, tr') \<Rightarrow> (Normal (), tr' @ [Notify BibTexOpened])))"

text \<open>
  Whatever is raised is logged and raised again by the outer handler (lines 170 to 173).
\<close>

definition getBibTexFromPaperId ::
  "env \<Rightarrow> jsstring \<Rightarrow> event list \<Rightarrow> unit completion \<times> event list" where
  "getBibTexFromPaperId E paperId tr =
     (let citeUrl = citeUrl_of paperId; tr1 = tr @ [Fetch citeUrl]
      in case fetch E citeUrl of
           NetworkError \<Rightarrow> (Throw, tr1)
         | Response ok body \<Rightarrow>
             if \<not> ok then (Throw, tr1)
             else (case body of
                     None \<Rightarrow> (Throw, tr1)
                   | Some citeText \<Rightarrow>
                       (case JSON_parse citeText of
                          None \<Rightarrow> html_parsing E citeText citeUrl tr1
                        | Some citeData \<Rightarrow>
                            (case first_format_url citeData of
                               None \<Rightarrow> open_citation_page E citeUrl tr1
                             | Some bibTexUrl \<Rightarrow>
                                 (case create_tab E bibTexUrl tr1 of
                                    (Throw, tr2) \<Rightarrow> html_parsing E citeText citeUrl tr2
                                  | (Normal u, tr2) \<Rightarrow>
                                      (Normal (), tr2 @ [Notify BibTexOpened]))))))"

section \<open>searchForBibTex\<close>

definition clean :: "jsstring \<Rightarrow> jsstring" where
  "clean keyword = replace_ws (js ''+'') (trim keyword)"

definition searchUrl_of :: "jsstring \<Rightarrow> jsstring" where
  "searchUrl_of encoded =
     js ''https://scholar.google.com/scholar?oi=gsb95&output=gsb&hl=en&q='' @ encoded"

text \<open>Lines 50 to 55, the handler of \<open>searchForBibTex\<close>.\<close>

definition search_failed ::
  "env \<Rightarrow> jsstring \<Rightarrow> event list \<Rightarrow> unit completion \<times> event list" where
  "search_failed E keyword tr =
     (case openScholarSearch E (clean keyword) tr of
        (Throw, tr') \<Rightarrow> (Throw, tr')
      | (Normal u, tr') \<Rightarrow> (Normal (), tr' @ [Notify ErrorNotification]))"

text \<open>Lines 38 to 47: no paper identifier, the search page is opened instead.\<close>

definition manual_search ::
  "env \<Rightarrow> jsstring \<Rightarrow> event list \<Rightarrow> unit completion \<times> event list" where
  "manual_search E keyword tr =
     (case openScholarSearch E (clean keyword) tr of
        (Throw, tr') \<Rightarrow> search_failed E keyword tr'
      | (Normal u, tr') \<Rightarrow> (Normal (), tr' @ [Notify (FoundSearchResults keyword)]))"

text \<open>Lines 34 to 36: a truthy identifier, that is a string that is not empty.\<close>

definition cite_paper ::
  "env \<Rightarrow> jsstring \<Rightarrow> jsstring \<Rightarrow> event list \<Rightarrow> unit completion \<times> event list" where
  "cite_paper E keyword paperId tr =
     (case getBibTexFromPaperId E paperId tr of
        (Throw, tr') \<Rightarrow> search_failed E keyword tr'
      | (Normal u, tr') \<Rightarrow> (Normal (), tr'))"

text \<open>
  The result is how the promise settles (\<open>Normal\<close>: fulfilled, \<open>Throw\<close>: rejected) and
  the trace extended by what was done.
\<close>

definition searchForBibTex ::
  "env \<Rightarrow> jsstring \<Rightarrow> event list \<Rightarrow> unit completion \<times> event list" where
  "searchForBibTex E keyword tr =
     (if keyword = [] then (Normal (), tr)
      else
        (case encodeURIComponent (clean keyword) of
           None \<Rightarrow> search_failed E keyword tr
         | Some encoded \<Rightarrow>
             (let searchUrl = searchUrl_of encoded; tr1 = tr @ [Fetch searchUrl]
              in case fetch E searchUrl of
                   NetworkError \<Rightarrow> search_failed E keyword tr1
                 | Response ok body \<Rightarrow>
                     if \<not> ok then search_failed E keyword tr1
                     else (case body of
                             None \<Rightarrow> search_failed E keyword tr1
                           | Some searchText \<Rightarrow>
                               (case extractPaperIdFromResponse searchText of
                                  None \<Rightarrow> manual_search E keyword tr1
                                | Some paperId \<Rightarrow>
                                    if paperId = [] then manual_search E keyword tr1
                                    else cite_paper E keyword paperId tr1)))))"

section \<open>The context menu listener\<close>

text \<open>
  \<open>info.selectionText\<close> is a string or absent. \<open>None\<close> says that \<open>searchForBibTex\<close> was
  not called; otherwise the result is how its promise settles, which the listener never
  awaits.
\<close>

definition onClicked ::
  "env \<Rightarrow> jsstring \<Rightarrow> jsstring option \<Rightarrow> event list
     \<Rightarrow> (unit completion \<times> event list) option" where
  "onClicked E menuItemId selectionText tr =
     (case selectionText of
        None \<Rightarrow> None
      | Some text \<Rightarrow>
          if menuItemId = js ''selectcite-search'' \<and> text \<noteq> [] then
            (let selectedText = trim text
             in if 0 < length selectedText then Some (searchForBibTex E selectedText tr)
                else None)
          else None)"

section \<open>The simplified variant\<close>

text \<open>
  The second \<open>searchForBibTex\<close> of the repository (lines 290 to 315) goes straight to the
  search page: white space is normalized to one space, and its handler only shows the
  error notification.
\<close>

definition searchForBibTex_simplified ::
  "env \<Rightarrow> jsstring \<Rightarrow> event list \<Rightarrow> unit completion \<times> event list" where
  "searchForBibTex_simplified E keyword tr =
     (if keyword = [] then (Normal (), tr)
      else
        (let cleanKeyword = replace_ws (js '' '') (trim keyword)
         in case openScholarSearch E cleanKeyword tr of
              (Throw, tr') \<Rightarrow> (Normal (), tr' @ [Notify ErrorNotification])
            | (Normal u, tr') \<Rightarrow>
                (Normal (),
                 tr' @ [Notify (SearchingFor
                                 (if 50 < length cleanKeyword
                                  then take 50 cleanKeyword @ js ''...''
                                  else cleanKeyword))])))"

section \<open>Environments used as examples\<close>

text \<open>Every request is answered with status 200 and the given body, every tab opens.\<close>

definition answering :: "jsstring \<Rightarrow> env" where
  "answering body =
     \<lparr>fetch = (\<lambda>url. Response True (Some body)), tabs_create = (\<lambda>tr url. True)\<rparr>"

text \<open>No request gets through and no tab can be opened.\<close>

definition unreachable :: env where
  "unreachable = \<lparr>fetch = (\<lambda>url. NetworkError), tabs_create = (\<lambda>tr url. False)\<rparr>"

section \<open>The parser consumes its input\<close>

lemma skip_ws_le: "length (skip_ws s) \<le> length s"
  by (simp add: skip_ws_def length_dropWhile_le)

lemma consr_Some: "consr x r = Some (ys, rest) \<Longrightarrow> \<exists>xs. r = Some (xs, rest) \<and> ys = x # xs"
  by (auto simp: consr_def split: option.splits)

lemma pstring_shorter: "pstring s = Some (t, r) \<Longrightarrow> length r < length s"
proof (induction s arbitrary: t r rule: pstring.induct)
  case 1
  then show ?case by simp
next
  case (2 c cs)
  then show ?case
    by (fastforce split: if_splits list.splits option.splits dest!: consr_Some)
qed

lemma pint_shorter: "pint s = Some (d, r) \<Longrightarrow> length r < length s"
proof -
  assume a: "pint s = Some (d, r)"
  have "length (dropWhile isDigit s) < length s" if "s = c # cs" "isDigit c" for c cs
    using that length_dropWhile_le [of isDigit cs] by simp
  with a show ?thesis
    by (auto simp: pint_def split: list.splits if_splits)
qed

lemma pfrac_le: "pfrac s = Some (d, r) \<Longrightarrow> length r \<le> length s"
  using length_dropWhile_le [of isDigit "tl s"]
  by (auto simp: pfrac_def split: list.splits if_splits)

lemma pexp_le: "pexp s = Some (e, r) \<Longrightarrow> length r \<le> length s"
proof -
  assume a: "pexp s = Some (e, r)"
  have d: "length (dropWhile isDigit x) \<le> length x" for x :: jsstring
    by (rule length_dropWhile_le)
  from a show ?thesis
    using d [of "tl s"] d [of "tl (tl s)"]
    by (auto simp: pexp_def Let_def split: list.splits if_splits)
qed

lemma pnumber_shorter: "pnumber s = Some (v, r) \<Longrightarrow> length r < length s"
proof -
  assume a: "pnumber s = Some (v, r)"
  obtain neg s1 where n: "(case s of [] \<Rightarrow> (False, s) | c # r \<Rightarrow> if c = 0x2D then (True, r) else (False, s)) = (neg, s1)"
    by (cases "(case s of [] \<Rightarrow> (False, s) | c # r \<Rightarrow> if c = 0x2D then (True, r) else (False, s))")
  then have l1: "length s1 \<le> length s"
    by (auto split: list.splits if_splits)
  from a n obtain ip s2 fp s3 e where
    p: "pint s1 = Some (ip, s2)" "pfrac s2 = Some (fp, s3)" "pexp s3 = Some (e, r)"
    by (auto simp: pnumber_def split: option.splits)
  from pint_shorter [OF p(1)] pfrac_le [OF p(2)] pexp_le [OF p(3)] l1 show ?thesis
    by simp
qed


lemma skip_ws_Cons_le: "skip_ws s = c # r \<Longrightarrow> Suc (length r) \<le> length s"
  using skip_ws_le [of s] by simp




lemma literal_shorter: "0 < n \<Longrightarrow> length (drop n (c # r)) < length (c # r)"
  by simp

lemma parser_shorter:
  shows "pvalue s = Some (v, r) \<Longrightarrow> length r < length s"
    and "pelems s1 = Some (vs, r1) \<Longrightarrow> length r1 < length s1"
    and "pmembers s2 = Some (kvs, r2) \<Longrightarrow> length r2 < length s2"
proof (induction s and s1 and s2 arbitrary: v r and vs r1 and kvs r2
    rule: pvalue_pelems_pmembers.induct)
  case (1 s)
  note p = "1.prems" [unfolded pvalue.simps [of s]]
  show ?case
  proof (cases "skip_ws s")
    case Nil
    with p show ?thesis by simp
  next
    case outer: (Cons c r0)
    note l0 = skip_ws_Cons_le [OF outer]
    consider (obj) "c = 0x7B" | (arr) "c \<noteq> 0x7B" "c = 0x5B" | (other) "c \<noteq> 0x7B" "c \<noteq> 0x5B"
      by blast
    then show ?thesis
    proof cases
      case obj
      show ?thesis
      proof (cases "skip_ws r0")
        case Nil
        with p outer obj show ?thesis by simp
      next
        case inner: (Cons d r')
        note l1 = skip_ws_Cons_le [OF inner]
        show ?thesis
        proof (cases "d = 0x7D")
          case True
          with p outer obj inner l0 l1 show ?thesis by auto
        next
          case False
          with p outer obj inner obtain ms where m: "pmembers (d # r') = Some (ms, r)"
            by (auto split: option.splits)
          from "1.IH"(1) [OF outer obj inner False m] l0 l1 show ?thesis by simp
        qed
      qed
    next
      case arr
      show ?thesis
      proof (cases "skip_ws r0")
        case Nil
        with p outer arr show ?thesis by simp
      next
        case inner: (Cons d r')
        note l1 = skip_ws_Cons_le [OF inner]
        show ?thesis
        proof (cases "d = 0x5D")
          case True
          with p outer arr inner l0 l1 show ?thesis by auto
        next
          case False
          with p outer arr inner obtain es where m: "pelems (d # r') = Some (es, r)"
            by (auto split: option.splits)
          from "1.IH"(2) [OF outer arr(1) arr(2) inner False m] l0 l1 show ?thesis by simp
        qed
      qed
    next
      case other
      with p outer l0 show ?thesis
        by (auto split: if_splits option.splits dest!: pstring_shorter pnumber_shorter)
    qed
  qed
next
  case (2 s)
  note p = "2.prems" [unfolded pelems.simps [of s]]
  from p obtain v0 r0 where v: "pvalue s = Some (v0, r0)"
    by (auto split: option.splits)
  note l0 = "2.IH"(1) [OF v]
  show ?case
  proof (cases "skip_ws r0")
    case Nil
    with p v show ?thesis by simp
  next
    case (Cons c r')
    note l1 = skip_ws_Cons_le [OF Cons]
    show ?thesis
    proof (cases "c = 0x5D")
      case True
      with p v Cons l0 l1 show ?thesis by auto
    next
      case False
      with p v Cons obtain vs' where c: "c = 0x2C" "length r' < length s"
          and m: "pelems r' = Some (vs', r1)"
        by (auto split: if_splits dest!: consr_Some)
      have g: "c = 0x2C \<and> length r' < length s" using c by simp
      from "2.IH"(2) [OF v refl Cons False g m] c(2) show ?thesis by simp
    qed
  qed
next
  case (3 s)
  note p = "3.prems" [unfolded pmembers.simps [of s]]
  show ?case
  proof (cases "skip_ws s")
    case Nil
    with p show ?thesis by simp
  next
    case outer: (Cons q r0)
    note l0 = skip_ws_Cons_le [OF outer]
    from p outer have q: "\<not> q \<noteq> 0x22" by (auto split: if_splits)
    from p outer q obtain k ra where k: "pstring r0 = Some (k, ra)"
      by (auto split: option.splits)
    show ?thesis
    proof (cases "skip_ws ra")
      case Nil
      with p outer q k show ?thesis by simp
    next
      case colon: (Cons c1 rb)
      from p outer q k colon have g1: "c1 = 0x3A \<and> length rb < length s"
        by (auto split: if_splits)
      from p outer q k colon g1 obtain v0 rc where v: "pvalue rb = Some (v0, rc)"
        by (auto split: option.splits)
      note lv = "3.IH"(1) [OF outer q k refl colon g1 v]
      show ?thesis
      proof (cases "skip_ws rc")
        case Nil
        with p outer q k colon g1 v show ?thesis by simp
      next
        case after: (Cons c3 rd)
        note l3 = skip_ws_Cons_le [OF after]
        show ?thesis
        proof (cases "c3 = 0x7D")
          case True
          with p outer q k colon g1 v after lv l3 show ?thesis by auto
        next
          case False
          with p outer q k colon g1 v after obtain ms where
            g2: "c3 = 0x2C \<and> length rd < length s" and m: "pmembers rd = Some (ms, r2)"
            by (auto split: if_splits dest!: consr_Some)
          from "3.IH"(2) [OF outer q k refl colon g1 v refl after False g2 m] g2
          show ?thesis by simp
        qed
      qed
    qed
  qed
qed


lemma pelems_unguarded:
  "pelems s =
     (case pvalue s of
        None \<Rightarrow> None
      | Some (v, r) \<Rightarrow>
          (case skip_ws r of
             [] \<Rightarrow> None
           | c # r' \<Rightarrow>
               if c = 0x5D then Some ([v], r')
               else if c = 0x2C then consr v (pelems r')
               else None))"
proof (cases "pvalue s")
  case None
  then show ?thesis by (subst pelems.simps) simp
next
  case (Some a)
  obtain v r where a: "a = (v, r)" by (cases a)
  note l0 = parser_shorter(1) [OF Some [unfolded a]]
  show ?thesis
  proof (cases "skip_ws r")
    case Nil
    with Some a show ?thesis by (subst pelems.simps) simp
  next
    case (Cons c r')
    from skip_ws_Cons_le [OF Cons] l0 have "length r' < length s" by simp
    with Some a Cons show ?thesis by (subst pelems.simps) simp
  qed
qed

lemma pmembers_unguarded:
  "pmembers s =
     (case skip_ws s of
        [] \<Rightarrow> None
      | q # r \<Rightarrow>
          if q \<noteq> 0x22 then None
          else (case pstring r of
                  None \<Rightarrow> None
                | Some (k, r1) \<Rightarrow>
                    (case skip_ws r1 of
                       [] \<Rightarrow> None
                     | c1 # r2 \<Rightarrow>
                         if c1 = 0x3A then
                           (case pvalue r2 of
                              None \<Rightarrow> None
                            | Some (v, r3) \<Rightarrow>
                                (case skip_ws r3 of
                                   [] \<Rightarrow> None
                                 | c3 # r4 \<Rightarrow>
                                     if c3 = 0x7D then Some ([(k, v)], r4)
                                     else if c3 = 0x2C then consr (k, v) (pmembers r4)
                                     else None))
                         else None)))"
proof -
  have g1: "length r2 < length s"
    if "skip_ws s = q # r" "pstring r = Some (k, r1)" "skip_ws r1 = c1 # r2" for q r k r1 c1 r2
    using skip_ws_Cons_le [OF that(1)] pstring_shorter [OF that(2)] skip_ws_Cons_le [OF that(3)]
    by simp
  have g2: "length r4 < length s"
    if "skip_ws s = q # r" "pstring r = Some (k, r1)" "skip_ws r1 = c1 # r2"
      "pvalue r2 = Some (v, r3)" "skip_ws r3 = c3 # r4" for q r k r1 c1 r2 v r3 c3 r4
    using g1 [OF that(1-3)] parser_shorter(1) [OF that(4)] skip_ws_Cons_le [OF that(5)]
    by simp
  show ?thesis
    by (subst pmembers.simps) (auto split: list.splits option.splits simp: g1 g2)
qed

section \<open>What each step adds to the trace\<close>

lemma create_tab_trace: "snd (create_tab E url tr) = tr @ [TabsCreate url]"
  by (simp add: create_tab_def)

lemma openScholarSearch_trace: "\<exists>rest. snd (openScholarSearch E term tr) = tr @ rest"
  by (simp add: openScholarSearch_def create_tab_def split: option.splits)

lemma search_failed_trace: "\<exists>rest. snd (search_failed E keyword tr) = tr @ rest"
proof -
  obtain rest where r: "snd (openScholarSearch E (clean keyword) tr) = tr @ rest"
    using openScholarSearch_trace by blast
  show ?thesis
    by (cases "openScholarSearch E (clean keyword) tr")
       (use r in \<open>auto simp: search_failed_def split: completion.splits\<close>)
qed

lemma open_citation_page_trace: "\<exists>rest. snd (open_citation_page E url tr) = tr @ rest"
  by (simp add: open_citation_page_def create_tab_def)

lemma html_parsing_trace: "\<exists>rest. snd (html_parsing E text url tr) = tr @ rest"
  by (simp add: html_parsing_def open_citation_page_def create_tab_def split: option.splits)

lemma getBibTexFromPaperId_trace:
  "\<exists>rest. snd (getBibTexFromPaperId E paperId tr) = tr @ Fetch (citeUrl_of paperId) # rest"
  by (simp add: getBibTexFromPaperId_def Let_def html_parsing_def open_citation_page_def create_tab_def
        split: fetch_result.splits option.splits)

lemma cite_paper_trace:
  "\<exists>rest. snd (cite_paper E keyword paperId tr) = tr @ Fetch (citeUrl_of paperId) # rest"
proof -
  obtain r1 where r1: "snd (getBibTexFromPaperId E paperId tr) = tr @ Fetch (citeUrl_of paperId) # r1"
    using getBibTexFromPaperId_trace by blast
  show ?thesis
  proof (cases "getBibTexFromPaperId E paperId tr")
    case (Pair out tr')
    with r1 have tr': "tr' = tr @ Fetch (citeUrl_of paperId) # r1" by simp
    show ?thesis
    proof (cases out)
      case (Normal u)
      with Pair tr' show ?thesis by (simp add: cite_paper_def)
    next
      case Throw
      obtain r2 where "snd (search_failed E keyword tr') = tr' @ r2"
        using search_failed_trace by blast
      with Pair Throw tr' show ?thesis by (simp add: cite_paper_def)
    qed
  qed
qed

section \<open>Reading the fixed paths\<close>

lemma first_format_url_first_entry:
  assumes "own_property kvs (js ''i'') = Some (JArr (JObj entry # entries))"
    and "own_property entry (js ''l'') = Some (JStr (js ''BibTeX''))"
  shows "first_format_url (JObj kvs) = Some (own_property entry (js ''u''))"
  using assms by (simp add: first_format_url_def)

lemma first_result_url_path:
  assumes "own_property kvs (js ''r'') = Some (JArr (JObj result # results))"
    and "own_property result (js ''l'') = Some (JObj link)"
    and "own_property link (js ''f'') = Some (JObj field)"
    and "own_property field (js ''u'') = Some (JStr url)"
    and "url \<noteq> []"
  shows "first_result_url (JObj kvs) = Normal (Some (JStr url))"
  using assms by (simp add: first_result_url_def num_nonzero_def)

section \<open>Decoding what was encoded\<close>

lemma hexval_hexdigit_all: "list_all (\<lambda>n. hexval (hexdigit n) = Some n) [0..<16]"
  by code_simp

lemma hexval_hexdigit: "n < 16 \<Longrightarrow> hexval (hexdigit n) = Some n"
  using hexval_hexdigit_all by (simp add: list_all_iff)

lemma ParseHexOctet_pct:
  assumes "b < 256"
  shows "ParseHexOctet (hexdigit (b div 16)) (hexdigit (b mod 16)) = Some b"
proof -
  have "b div 16 < 16" using assms by simp
  moreover have "b mod 16 < 16" by simp
  ultimately show ?thesis
    by (simp add: ParseHexOctet_def hexval_hexdigit)
qed

lemma uriUnescaped_not_percent: "uriUnescaped c \<Longrightarrow> c \<noteq> 0x25"
  by (auto simp: uriUnescaped_def)

lemma decode_pct:
  assumes "b < 256"
  shows "decodeURIComponent (pct b @ e) =
     (if leading_ones b = 0 then map_option ((#) (of_nat b)) (decodeURIComponent e)
      else if leading_ones b = 1 \<or> 4 < leading_ones b then None
      else
        (case octets (leading_ones b - 1) e of
           None \<Rightarrow> None
         | Some (bs, r') \<Rightarrow>
             (case utf8_decode (b # bs) of
                None \<Rightarrow> None
              | Some V \<Rightarrow> map_option ((@) (UTF16EncodeCodePoint V)) (decodeURIComponent r'))))"
  using ParseHexOctet_pct [OF assms] by (simp add: pct_def)

lemma octets_pct:
  assumes "b < 256"
  shows "octets (Suc j) (pct b @ e) = consr b (octets j e)"
  using ParseHexOctet_pct [OF assms] by (simp add: pct_def)

lemma decode_utf8_1:
  assumes "cp < 0x80"
  shows "decodeURIComponent (pct_utf8 cp @ e) = map_option ((#) (of_nat cp)) (decodeURIComponent e)"
  using assms by (simp add: pct_utf8_def utf8_def decode_pct leading_ones_def)


lemma decode_utf8_2:
  assumes "0x80 \<le> cp" "cp < 0x800"
  shows "decodeURIComponent (pct_utf8 cp @ e) =
           map_option ((@) (UTF16EncodeCodePoint cp)) (decodeURIComponent e)"
proof -
  have b0: "0xC0 + cp div 64 < 256" "0xC0 \<le> 0xC0 + cp div 64" "0xC0 + cp div 64 < 0xE0"
    using assms by simp_all
  have b1: "0x80 + cp mod 64 < 256" by simp
  have l: "leading_ones (0xC0 + cp div 64) = 2"
    using b0 by (simp add: leading_ones_def)
  have v: "cp div 64 * 64 + cp mod 64 = cp" by simp
  show ?thesis
    using assms
    by (simp add: pct_utf8_def utf8_def decode_pct [OF b0(1)] l octets_pct [OF b1]
        numeral_2_eq_2 consr_def continuation_def v)
qed



lemma split3: "(cp::nat) div 4096 * 4096 + cp div 64 mod 64 * 64 + cp mod 64 = cp"
proof -
  have a: "cp div 64 div 64 = cp div 4096" by (simp add: div_mult2_eq)
  have "cp = cp div 64 * 64 + cp mod 64" by simp
  also have "cp div 64 = cp div 64 div 64 * 64 + cp div 64 mod 64" by simp
  finally show ?thesis unfolding a by (simp add: algebra_simps)
qed

lemma utf8_decode_3:
  assumes "0x800 \<le> cp" "cp < 0x10000" "\<not> (0xD800 \<le> cp \<and> cp \<le> 0xDFFF)"
  shows "utf8_decode [0xE0 + cp div 4096, 0x80 + cp div 64 mod 64, 0x80 + cp mod 64] = Some cp"
proof -
  have V: "(0xE0 + cp div 4096 - 0xE0) * 4096 + (0x80 + cp div 64 mod 64 - 0x80) * 64
             + (0x80 + cp mod 64 - 0x80) = cp"
    using split3 [of cp] by simp
  have c1: "continuation (0x80 + cp div 64 mod 64)" by (simp add: continuation_def)
  have c2: "continuation (0x80 + cp mod 64)" by (simp add: continuation_def)
  show ?thesis
    unfolding utf8_decode.simps Let_def V using assms c1 c2 by simp
qed


lemma decode_utf8_3:
  assumes "0x800 \<le> cp" "cp < 0x10000" "\<not> (0xD800 \<le> cp \<and> cp \<le> 0xDFFF)"
  shows "decodeURIComponent (pct_utf8 cp @ e) =
           map_option ((@) (UTF16EncodeCodePoint cp)) (decodeURIComponent e)"
proof -
  define b0 where "b0 = 0xE0 + cp div 4096"
  define b1 where "b1 = 0x80 + cp div 64 mod 64"
  define b2 where "b2 = 0x80 + cp mod 64"
  have r0: "b0 < 256" and l: "leading_ones b0 = 3"
    using assms by (simp_all add: b0_def leading_ones_def)
  have r1: "b1 < 256" by (simp add: b1_def)
  have r2: "b2 < 256" by (simp add: b2_def)
  have p: "pct_utf8 cp @ e = pct b0 @ (pct b1 @ (pct b2 @ e))"
    using assms by (simp add: pct_utf8_def utf8_def b0_def b1_def b2_def)
  have o: "octets (Suc (Suc 0)) (pct b1 @ (pct b2 @ e)) = Some ([b1, b2], e)"
    by (simp add: octets_pct [OF r1] octets_pct [OF r2] consr_def)
  have u: "utf8_decode [b0, b1, b2] = Some cp"
    unfolding b0_def b1_def b2_def by (rule utf8_decode_3 [OF assms])
  have n: "(3::nat) - 1 = Suc (Suc 0)" by simp
  show ?thesis
    unfolding p decode_pct [OF r0] l n o by (simp add: u del: utf8_decode.simps)
qed


lemma split4:
  "(cp::nat) div 262144 * 262144 + cp div 4096 mod 64 * 4096 + cp div 64 mod 64 * 64 + cp mod 64 = cp"
proof -
  have a: "cp div 4096 div 64 = cp div 262144" by (simp add: div_mult2_eq)
  have "cp = cp div 4096 * 4096 + cp div 64 mod 64 * 64 + cp mod 64"
    by (simp add: split3)
  also have "cp div 4096 = cp div 4096 div 64 * 64 + cp div 4096 mod 64" by simp
  finally show ?thesis unfolding a by (simp add: algebra_simps)
qed

lemma utf8_decode_4:
  assumes "0x10000 \<le> cp" "cp \<le> 0x10FFFF"
  shows "utf8_decode [0xF0 + cp div 262144, 0x80 + cp div 4096 mod 64, 0x80 + cp div 64 mod 64,
                      0x80 + cp mod 64] = Some cp"
proof -
  have V: "(0xF0 + cp div 262144 - 0xF0) * 262144 + (0x80 + cp div 4096 mod 64 - 0x80) * 4096
             + (0x80 + cp div 64 mod 64 - 0x80) * 64 + (0x80 + cp mod 64 - 0x80) = cp"
    using split4 [of cp] by simp
  have c1: "continuation (0x80 + cp div 4096 mod 64)" by (simp add: continuation_def)
  have c2: "continuation (0x80 + cp div 64 mod 64)" by (simp add: continuation_def)
  have c3: "continuation (0x80 + cp mod 64)" by (simp add: continuation_def)
  show ?thesis
    unfolding utf8_decode.simps Let_def V using assms c1 c2 c3 by simp
qed

lemma decode_utf8_4:
  assumes "0x10000 \<le> cp" "cp \<le> 0x10FFFF"
  shows "decodeURIComponent (pct_utf8 cp @ e) =
           map_option ((@) (UTF16EncodeCodePoint cp)) (decodeURIComponent e)"
proof -
  define b0 where "b0 = 0xF0 + cp div 262144"
  define b1 where "b1 = 0x80 + cp div 4096 mod 64"
  define b2 where "b2 = 0x80 + cp div 64 mod 64"
  define b3 where "b3 = 0x80 + cp mod 64"
  have r0: "b0 < 256" and l: "leading_ones b0 = 4"
    using assms by (simp_all add: b0_def leading_ones_def)
  have r1: "b1 < 256" by (simp add: b1_def)
  have r2: "b2 < 256" by (simp add: b2_def)
  have r3: "b3 < 256" by (simp add: b3_def)
  have p: "pct_utf8 cp @ e = pct b0 @ (pct b1 @ (pct b2 @ (pct b3 @ e)))"
    using assms by (simp add: pct_utf8_def utf8_def b0_def b1_def b2_def b3_def)
  have o: "octets (Suc (Suc (Suc 0))) (pct b1 @ (pct b2 @ (pct b3 @ e))) = Some ([b1, b2, b3], e)"
    by (simp add: octets_pct [OF r1] octets_pct [OF r2] octets_pct [OF r3] consr_def)
  have u: "utf8_decode [b0, b1, b2, b3] = Some cp"
    unfolding b0_def b1_def b2_def b3_def by (rule utf8_decode_4 [OF assms])
  have n: "(4::nat) - 1 = Suc (Suc (Suc 0))" by simp
  show ?thesis
    unfolding p decode_pct [OF r0] l n o by (simp add: u del: utf8_decode.simps)
qed

lemma decode_scalar:
  assumes "cp \<le> 0x10FFFF" "\<not> (0xD800 \<le> cp \<and> cp \<le> 0xDFFF)"
  shows "decodeURIComponent (pct_utf8 cp @ e) =
           map_option ((@) (UTF16EncodeCodePoint cp)) (decodeURIComponent e)"
proof -
  consider "cp < 0x80" | "0x80 \<le> cp" "cp < 0x800" | "0x800 \<le> cp" "cp < 0x10000" | "0x10000 \<le> cp"
    by linarith
  then show ?thesis
  proof cases
    case 1
    have "(@) [of_nat cp :: cu] = (#) (of_nat cp)" by (rule ext) simp
    with 1 show ?thesis by (simp add: decode_utf8_1 UTF16EncodeCodePoint_def)
  next
    case 2
    then show ?thesis by (rule decode_utf8_2)
  next
    case 3
    then show ?thesis using assms(2) by (rule decode_utf8_3)
  next
    case 4
    then show ?thesis using assms(1) by (rule decode_utf8_4)
  qed
qed

lemma UTF16_unit:
  assumes "\<not> isHighSurrogate c" "\<not> isLowSurrogate c"
  shows "UTF16EncodeCodePoint (unat c) = [c]"
    and "unat c \<le> 0x10FFFF" and "\<not> (0xD800 \<le> unat c \<and> unat c \<le> 0xDFFF)"
proof -
  have "unat c < 2 ^ LENGTH(16)" by (rule unsigned_less)
  then have b: "unat c < 0x10000" by simp
  then show "UTF16EncodeCodePoint (unat c) = [c]"
    by (simp add: UTF16EncodeCodePoint_def)
  from b show "unat c \<le> 0x10FFFF" by simp
  show "\<not> (0xD800 \<le> unat c \<and> unat c \<le> 0xDFFF)"
    using assms by (auto simp: isHighSurrogate_def isLowSurrogate_def word_le_nat_alt)
qed

lemma UTF16_pair:
  assumes "isHighSurrogate c" "isLowSurrogate d"
  shows "UTF16EncodeCodePoint (pair_cp c d) = [c, d]"
    and "pair_cp c d \<le> 0x10FFFF" and "\<not> (0xD800 \<le> pair_cp c d \<and> pair_cp c d \<le> 0xDFFF)"
proof -
  have c: "0xD800 \<le> unat c" "unat c \<le> 0xDBFF"
    using assms(1) by (simp_all add: isHighSurrogate_def word_le_nat_alt)
  have d: "0xDC00 \<le> unat d" "unat d \<le> 0xDFFF"
    using assms(2) by (simp_all add: isLowSurrogate_def word_le_nat_alt)
  define x where "x = unat c - 0xD800"
  define y where "y = unat d - 0xDC00"
  have x: "x < 0x400" "unat c = 0xD800 + x" using c by (simp_all add: x_def)
  have y: "y < 0x400" "unat d = 0xDC00 + y" using d by (simp_all add: y_def)
  have p: "pair_cp c d = 0x10000 + x * 0x400 + y"
    by (simp add: pair_cp_def x_def y_def)
  have dv: "(x * 0x400 + y) div 0x400 = x" using y(1) by simp
  have md: "(x * 0x400 + y) mod 0x400 = y" using y(1) by simp
  have cc: "of_nat (0xD800 + x) = c" using x(2) [symmetric] by simp
  have dd: "of_nat (0xDC00 + y) = d" using y(2) [symmetric] by simp
  show "UTF16EncodeCodePoint (pair_cp c d) = [c, d]"
    unfolding p UTF16EncodeCodePoint_def using dv md cc dd by (simp add: add.assoc)
  show "pair_cp c d \<le> 0x10FFFF" unfolding p using x(1) y(1) by simp
  show "\<not> (0xD800 \<le> pair_cp c d \<and> pair_cp c d \<le> 0xDFFF)" unfolding p by simp
qed

lemma decode_encode:
  "encodeURIComponent s = Some e \<Longrightarrow> decodeURIComponent e = Some s"
proof (induction s arbitrary: e rule: encodeURIComponent.induct)
  case 1
  then show ?case by simp
next
  case (2 c cs)
  show ?case
  proof (cases "uriUnescaped c")
    case True
    with "2.prems" obtain e' where e': "encodeURIComponent cs = Some e'" "e = c # e'"
      by auto
    from "2.IH"(1) [OF True e'(1)] True show ?thesis
      by (simp add: e'(2) uriUnescaped_not_percent)
  next
    case False
    note nu = False
    show ?thesis
    proof (cases "isLowSurrogate c")
      case True
      with nu "2.prems" show ?thesis by simp
    next
      case False
      note nl = False
      show ?thesis
      proof (cases "isHighSurrogate c")
        case True
        with nu nl "2.prems" obtain d ds e' where
          d: "cs = d # ds" "isLowSurrogate d" "encodeURIComponent ds = Some e'"
             "e = pct_utf8 (pair_cp c d) @ e'"
          by (auto split: list.splits if_splits)
        from "2.IH"(2) [OF nu nl True d(1) d(2) d(3)]
        have "decodeURIComponent e' = Some ds" .
        then show ?thesis
          using UTF16_pair [OF True d(2)]
          by (simp add: d(1) d(4) decode_scalar)
      next
        case False
        with nu nl "2.prems" obtain e' where
          e': "encodeURIComponent cs = Some e'" "e = pct_utf8 (unat c) @ e'"
          by auto
        from "2.IH"(3) [OF nu nl False e'(1)]
        have "decodeURIComponent e' = Some cs" .
        then show ?thesis
          using UTF16_unit [OF False nl]
          by (simp add: e'(2) decode_scalar)
      qed
    qed
  qed
qed

lemma uriUnescaped_not_surrogate:
  "uriUnescaped c \<Longrightarrow> \<not> isLowSurrogate c \<and> \<not> isHighSurrogate c"
  by (auto simp: uriUnescaped_def isLowSurrogate_def isHighSurrogate_def word_le_nat_alt)

lemma encode_defined_iff: "(encodeURIComponent s \<noteq> None) = isWellFormed s"
  by (induction s rule: encodeURIComponent.induct)
     (auto simp: uriUnescaped_not_surrogate split: list.splits)

section \<open>When the promise of searchForBibTex is fulfilled\<close>

text \<open>
  With a keyword that \<open>encodeURIComponent\<close> accepts and a browser in which every tab
  opens, no outcome of the two requests makes \<open>searchForBibTex\<close> reject.
\<close>

lemma search_failed_fulfils:
  assumes "\<forall>tr u. tabs_create E tr u" and "isWellFormed (clean keyword)"
  shows "fst (search_failed E keyword tr) = Normal ()"
proof -
  from assms(2) obtain enc where "encodeURIComponent (clean keyword) = Some enc"
    using encode_defined_iff [of "clean keyword"] by auto
  with assms(1) show ?thesis
    by (simp add: search_failed_def openScholarSearch_def create_tab_def)
qed

lemma manual_search_fulfils:
  assumes "\<forall>tr u. tabs_create E tr u" and "isWellFormed (clean keyword)"
  shows "fst (manual_search E keyword tr) = Normal ()"
proof -
  from assms(2) obtain enc where "encodeURIComponent (clean keyword) = Some enc"
    using encode_defined_iff [of "clean keyword"] by auto
  with assms(1) show ?thesis
    by (simp add: manual_search_def openScholarSearch_def create_tab_def)
qed

lemma cite_paper_fulfils:
  assumes "\<forall>tr u. tabs_create E tr u" and "isWellFormed (clean keyword)"
  shows "fst (cite_paper E keyword paperId tr) = Normal ()"
proof (cases "getBibTexFromPaperId E paperId tr")
  case (Pair out tr')
  then show ?thesis
    using search_failed_fulfils [OF assms, of tr']
    by (cases out) (simp_all add: cite_paper_def)
qed

lemma searchForBibTex_fulfils:
  assumes "\<forall>tr u. tabs_create E tr u" and "isWellFormed (clean keyword)"
  shows "fst (searchForBibTex E keyword tr) = Normal ()"
  using search_failed_fulfils [OF assms] manual_search_fulfils [OF assms]
    cite_paper_fulfils [OF assms]
  by (simp add: searchForBibTex_def Let_def split: option.splits fetch_result.splits)

section \<open>What the simplified variant does\<close>

lemma simplified_never_throws: "fst (searchForBibTex_simplified E keyword tr) = Normal ()"
  by (cases "openScholarSearch E (replace_ws (js '' '') (trim keyword)) tr")
     (auto simp: searchForBibTex_simplified_def Let_def split: completion.splits)

lemma simplified_attention:
  "searchForBibTex_simplified (answering []) (js ''Attention Is All You Need'') []
     = (Normal (),
        [TabsCreate (Some (JStr (js ''https://scholar.google.com/scholar?hl=en&q=Attention%20Is%20All%20You%20Need''))),
         Notify (SearchingFor (js ''Attention Is All You Need''))])"
  by code_simp

section \<open>Properties of the listener\<close>

text \<open>
  C8: a context-menu click whose selection text is empty once trimmed (empty or white
  space only) does not call \<open>searchForBibTex\<close>, so nothing is fetched and no tab is
  opened; and \<open>searchForBibTex\<close> itself, given the empty string, returns at line 12
  with the trace as it was.
\<close>

theorem empty_selection_ignored:
  assumes "trim text = []"
  shows "onClicked E menuItemId (Some text) tr = None \<and> searchForBibTex E [] tr = (Normal (), tr)"
  using assms by (simp add: onClicked_def searchForBibTex_def)

theorem empty_selection_ignored_witness:
  "trim (js ''   '') = []
   \<and> onClicked (answering []) (js ''selectcite-search'') (Some (js ''   '')) [] = None
   \<and> searchForBibTex (answering []) [] [] = (Normal (), [])"
proof -
  have h: "trim (js ''   '') = []" by code_simp
  show ?thesis using h empty_selection_ignored [OF h] by simp
qed

section \<open>Properties of the identifier extraction\<close>

text \<open>
  C10: a body on which neither the embedded-object pattern (index 0) nor the direct
  info-link pattern (index 3) matches and which holds no citation-info link gives
  \<open>null\<close>, whatever the inline-array pattern (index 1) and the \<open>data-clk\<close> pattern
  (index 2) find: those two never return an identifier.
\<close>

theorem identifier_only_from_three_matchers:
  assumes "String_match body (patterns ! 0) = None"
    and "String_match body (patterns ! 3) = None"
    and "String_match body cite_link_pattern = None"
  shows "extractPaperIdFromResponse body = None"
  using assms
  by (simp add: extractPaperIdFromResponse_def patterns_def split: option.splits)

theorem identifier_only_from_three_matchers_witness:
  \<open>String_match (js ''"r": [{"a":1}] data-clk="xyz"'') (patterns ! 0) = None
   \<and> String_match (js ''"r": [{"a":1}] data-clk="xyz"'') (patterns ! 1) = Some (Some (js ''{"a":1}''))
   \<and> String_match (js ''"r": [{"a":1}] data-clk="xyz"'') (patterns ! 2) = Some (Some (js ''xyz''))
   \<and> String_match (js ''"r": [{"a":1}] data-clk="xyz"'') (patterns ! 3) = None
   \<and> String_match (js ''"r": [{"a":1}] data-clk="xyz"'') cite_link_pattern = None
   \<and> extractPaperIdFromResponse (js ''"r": [{"a":1}] data-clk="xyz"'') = None\<close>
proof -
  have h0: \<open>String_match (js ''"r": [{"a":1}] data-clk="xyz"'') (patterns ! 0) = None\<close>
    by code_simp
  have h1: \<open>String_match (js ''"r": [{"a":1}] data-clk="xyz"'') (patterns ! 1) = Some (Some (js ''{"a":1}''))\<close>
    by code_simp
  have h2: \<open>String_match (js ''"r": [{"a":1}] data-clk="xyz"'') (patterns ! 2) = Some (Some (js ''xyz''))\<close>
    by code_simp
  have h3: \<open>String_match (js ''"r": [{"a":1}] data-clk="xyz"'') (patterns ! 3) = None\<close>
    by code_simp
  have h4: \<open>String_match (js ''"r": [{"a":1}] data-clk="xyz"'') cite_link_pattern = None\<close>
    by code_simp
  from identifier_only_from_three_matchers [OF h0 h3 h4] h0 h1 h2 h3 h4
  show ?thesis by blast
qed

text \<open>
  C5 says that the final scan for a citation-info link still runs when the embedded-object
  pattern matches and its text does not parse. It does not: \<open>JSON.parse\<close> raises inside
  the loop, the handler of line 100 returns \<open>null\<close>, and the link \<open>info:ABC:\<close> that
  the final scan would capture is never looked for.
\<close>

theorem parse_failure_skips_final_scan:
  \<open>String_match (js ''window.googleSearchResponse = {x}; <a href="/scholar?q=info:ABC:scholar.google.com/">'')
       (patterns ! 0) = Some (Some (js ''{x}''))
   \<and> JSON_parse (js ''{x}'') = None
   \<and> String_match (js ''window.googleSearchResponse = {x}; <a href="/scholar?q=info:ABC:scholar.google.com/">'')
       cite_link_pattern = Some (Some (js ''ABC''))
   \<and> extractPaperIdFromResponse
        (js ''window.googleSearchResponse = {x}; <a href="/scholar?q=info:ABC:scholar.google.com/">'') = None\<close>
  by code_simp

text \<open>
  C6, as the code has it: when the embedded-object pattern matches and the text it
  captures (from the brace to the first \<open>};\<close> on the same line) parses as an object
  whose \<open>r\<close> is an array, the first element of which leads by \<open>l\<close>, \<open>f\<close> and \<open>u\<close> to
  a string that is not empty, extraction returns that string with its first \<open>#f\<close>
  removed; and when this identifier is not empty, the request that follows the search
  request is for the citation URL built from it.
\<close>

theorem embedded_object_identifier:
  assumes "String_match body (patterns ! 0) = Some (Some text)"
    and "JSON_parse text = Some (JObj kvs)"
    and "own_property kvs (js ''r'') = Some (JArr (JObj result # results))"
    and "own_property result (js ''l'') = Some (JObj link)"
    and "own_property link (js ''f'') = Some (JObj field)"
    and "own_property field (js ''u'') = Some (JStr url)"
    and "url \<noteq> []"
  shows "extractPaperIdFromResponse body = Some (replace_first (js ''#f'') [] url)
       \<and> (keyword \<noteq> [] \<and> encodeURIComponent (clean keyword) = Some encoded
            \<and> fetch E (searchUrl_of encoded) = Response True (Some body)
            \<and> replace_first (js ''#f'') [] url \<noteq> []
          \<longrightarrow> (\<exists>rest. snd (searchForBibTex E keyword tr) =
                  tr @ [Fetch (searchUrl_of encoded),
                        Fetch (js ''https://scholar.google.com/scholar?output=gsb-cite&hl=en&q=info:''
                               @ replace_first (js ''#f'') [] url @ js '':scholar.google.com/'')]
                     @ rest))"
proof -
  have x: "extractPaperIdFromResponse body = Some (replace_first (js ''#f'') [] url)"
    using assms(1,2) first_result_url_path [OF assms(3-7)]
    by (simp add: extractPaperIdFromResponse_def patterns_def)
  have y: "\<exists>rest. snd (searchForBibTex E keyword tr) =
                  tr @ [Fetch (searchUrl_of encoded),
                        Fetch (js ''https://scholar.google.com/scholar?output=gsb-cite&hl=en&q=info:''
                               @ replace_first (js ''#f'') [] url @ js '':scholar.google.com/'')]
                     @ rest"
    if k: "keyword \<noteq> []" and e: "encodeURIComponent (clean keyword) = Some encoded"
      and f: "fetch E (searchUrl_of encoded) = Response True (Some body)"
      and p: "replace_first (js ''#f'') [] url \<noteq> []"
  proof -
    let ?pid = "replace_first (js ''#f'') [] url"
    have s: "searchForBibTex E keyword tr = cite_paper E keyword ?pid (tr @ [Fetch (searchUrl_of encoded)])"
      using k e f p x by (simp add: searchForBibTex_def Let_def)
    obtain rest where "snd (cite_paper E keyword ?pid (tr @ [Fetch (searchUrl_of encoded)])) =
        (tr @ [Fetch (searchUrl_of encoded)]) @ Fetch (citeUrl_of ?pid) # rest"
      using cite_paper_trace by blast
    then show ?thesis by (simp add: s citeUrl_of_def)
  qed
  from x y show ?thesis by blast
qed

theorem embedded_object_identifier_witness:
  \<open>String_match (js ''window.googleSearchResponse = {"r":[{"l":{"f":{"u":"Qx7#f"}}}]};'') (patterns ! 0)
     = Some (Some (js ''{"r":[{"l":{"f":{"u":"Qx7#f"}}}]}''))
   \<and> extractPaperIdFromResponse (js ''window.googleSearchResponse = {"r":[{"l":{"f":{"u":"Qx7#f"}}}]};'')
       = Some (js ''Qx7'')
   \<and> (\<exists>rest. snd (searchForBibTex
                     (answering (js ''window.googleSearchResponse = {"r":[{"l":{"f":{"u":"Qx7#f"}}}]};''))
                     (js ''deep nets'') [])
        = [Fetch (js ''https://scholar.google.com/scholar?oi=gsb95&output=gsb&hl=en&q=deep%2Bnets''),
           Fetch (js ''https://scholar.google.com/scholar?output=gsb-cite&hl=en&q=info:Qx7:scholar.google.com/'')]
          @ rest)\<close>
proof -
  let ?body = \<open>js ''window.googleSearchResponse = {"r":[{"l":{"f":{"u":"Qx7#f"}}}]};''\<close>
  let ?text = \<open>js ''{"r":[{"l":{"f":{"u":"Qx7#f"}}}]}''\<close>
  let ?field = "[(js ''u'', JStr (js ''Qx7#f''))]"
  let ?link = "[(js ''f'', JObj ?field)]"
  let ?result = "[(js ''l'', JObj ?link)]"
  let ?kvs = "[(js ''r'', JArr (JObj ?result # []))]"
  have h1: "String_match ?body (patterns ! 0) = Some (Some ?text)" by code_simp
  have h2: "JSON_parse ?text = Some (JObj ?kvs)" by code_simp
  have h3: "own_property ?kvs (js ''r'') = Some (JArr (JObj ?result # []))" by code_simp
  have h4: "own_property ?result (js ''l'') = Some (JObj ?link)" by code_simp
  have h5: "own_property ?link (js ''f'') = Some (JObj ?field)" by code_simp
  have h6: "own_property ?field (js ''u'') = Some (JStr (js ''Qx7#f''))" by code_simp
  have h7: "js ''Qx7#f'' \<noteq> []" by code_simp
  have r: "replace_first (js ''#f'') [] (js ''Qx7#f'') = js ''Qx7''" by code_simp
  have k: "js ''deep nets'' \<noteq> []" by code_simp
  have e: "encodeURIComponent (clean (js ''deep nets'')) = Some (js ''deep%2Bnets'')" by code_simp
  have f: "fetch (answering ?body) (searchUrl_of (js ''deep%2Bnets'')) = Response True (Some ?body)"
    by (simp add: answering_def)
  have p: "js ''Qx7'' \<noteq> []" by code_simp
  have s: "searchUrl_of (js ''deep%2Bnets'')
     = js ''https://scholar.google.com/scholar?oi=gsb95&output=gsb&hl=en&q=deep%2Bnets''"
    by code_simp
  have c: "js ''https://scholar.google.com/scholar?output=gsb-cite&hl=en&q=info:'' @ js ''Qx7''
             @ js '':scholar.google.com/''
     = js ''https://scholar.google.com/scholar?output=gsb-cite&hl=en&q=info:Qx7:scholar.google.com/''"
    by code_simp
  from embedded_object_identifier [OF h1 h2 h3 h4 h5 h6 h7,
      of "js ''deep nets''" "js ''deep%2Bnets''" "answering ?body" "[]"]
  show ?thesis
    using h1 k e f p by (simp add: r s c)
qed

text \<open>
  C6 as stated fails twice. A well-formed object whose string holds \<open>};\<close> is cut short
  by the lazy pattern, the cut text does not parse and extraction gives \<open>null\<close>. And
  \<open>replace\<close> removes the first \<open>#f\<close>, not a trailing one.
\<close>

theorem embedded_object_counterexample:
  \<open>JSON_parse (js ''{"r":[{"l":{"f":{"u":"a};b"}}}]}'')
     = Some (JObj [(js ''r'', JArr [JObj [(js ''l'', JObj [(js ''f'', JObj [(js ''u'', JStr (js ''a};b''))])])]])])
   \<and> extractPaperIdFromResponse (js ''window.googleSearchResponse = {"r":[{"l":{"f":{"u":"a};b"}}}]};'') = None
   \<and> JSON_parse (js ''{"r":[{"l":{"f":{"u":"a#fb#f"}}}]}'')
     = Some (JObj [(js ''r'', JArr [JObj [(js ''l'', JObj [(js ''f'', JObj [(js ''u'', JStr (js ''a#fb#f''))])])]])])
   \<and> extractPaperIdFromResponse (js ''window.googleSearchResponse = {"r":[{"l":{"f":{"u":"a#fb#f"}}}]};'')
       = Some (js ''ab#f'')
   \<and> js ''ab#f'' \<noteq> js ''a#fb''\<close>
  by code_simp

section \<open>Properties of the export-link extraction\<close>

text \<open>
  C7: when the citation response is fetched and its body neither parses as JSON with a
  first entry labelled BibTeX nor holds an anchor labelled BibTeX, the one tab that
  \<open>getBibTexFromPaperId\<close> asks for is the citation URL built from the identifier; the
  search page is not asked for, and the call fails only if that tab cannot be opened.
\<close>

theorem citation_page_opened:
  assumes "fetch E (citeUrl_of paperId) = Response True (Some citeText)"
    and "case JSON_parse citeText of
           None \<Rightarrow> True
         | Some citeData \<Rightarrow> first_format_url citeData = None"
    and "String_match citeText bibtex_anchor_pattern = None"
  shows "getBibTexFromPaperId E paperId tr =
     (if tabs_create E (tr @ [Fetch (citeUrl_of paperId)]) (Some (JStr (citeUrl_of paperId)))
      then (Normal (),
            tr @ [Fetch (citeUrl_of paperId), TabsCreate (Some (JStr (citeUrl_of paperId))),
                  Notify CitationPageOpened])
      else (Throw,
            tr @ [Fetch (citeUrl_of paperId), TabsCreate (Some (JStr (citeUrl_of paperId)))]))"
  using assms
  by (auto simp: getBibTexFromPaperId_def html_parsing_def open_citation_page_def
        create_tab_def Let_def split: option.splits)

theorem citation_page_opened_witness:
  "fetch (answering (js ''<p>no export</p>'')) (citeUrl_of (js ''ABC''))
     = Response True (Some (js ''<p>no export</p>''))
   \<and> JSON_parse (js ''<p>no export</p>'') = None
   \<and> String_match (js ''<p>no export</p>'') bibtex_anchor_pattern = None
   \<and> getBibTexFromPaperId (answering (js ''<p>no export</p>'')) (js ''ABC'') []
       = (Normal (),
          [Fetch (js ''https://scholar.google.com/scholar?output=gsb-cite&hl=en&q=info:ABC:scholar.google.com/''),
           TabsCreate (Some (JStr (js ''https://scholar.google.com/scholar?output=gsb-cite&hl=en&q=info:ABC:scholar.google.com/''))),
           Notify CitationPageOpened])"
proof -
  have h1: "fetch (answering (js ''<p>no export</p>'')) (citeUrl_of (js ''ABC''))
     = Response True (Some (js ''<p>no export</p>''))"
    by (simp add: answering_def)
  have h2: "JSON_parse (js ''<p>no export</p>'') = None" by code_simp
  have h3: "String_match (js ''<p>no export</p>'') bibtex_anchor_pattern = None" by code_simp
  have h2': "case JSON_parse (js ''<p>no export</p>'') of
               None \<Rightarrow> True
             | Some citeData \<Rightarrow> first_format_url citeData = None"
    by (simp add: h2)
  have c: "citeUrl_of (js ''ABC'')
     = js ''https://scholar.google.com/scholar?output=gsb-cite&hl=en&q=info:ABC:scholar.google.com/''"
    by code_simp
  have t: "tabs_create (answering (js ''<p>no export</p>'')) tr u" for tr u
    by (simp add: answering_def)
  from citation_page_opened [OF h1 h2' h3, of "[]"] h1 h2 h3 show ?thesis
    by (simp add: t c)
qed

text \<open>
  C2, as the code has it: only the first entry of the list is looked at. When the body
  parses as an object whose \<open>i\<close> is a list, the first entry of which is labelled BibTeX,
  and the tab opens, the tab opened is the \<open>u\<close> field of that first entry.
\<close>

theorem first_entry_bibtex_opened:
  assumes "fetch E (citeUrl_of paperId) = Response True (Some citeText)"
    and "JSON_parse citeText = Some (JObj kvs)"
    and "own_property kvs (js ''i'') = Some (JArr (JObj entry # entries))"
    and "own_property entry (js ''l'') = Some (JStr (js ''BibTeX''))"
    and "tabs_create E (tr @ [Fetch (citeUrl_of paperId)]) (own_property entry (js ''u''))"
  shows "getBibTexFromPaperId E paperId tr =
     (Normal (), tr @ [Fetch (citeUrl_of paperId), TabsCreate (own_property entry (js ''u'')),
                       Notify BibTexOpened])"
  using assms
  by (simp add: getBibTexFromPaperId_def first_format_url_first_entry create_tab_def Let_def)

theorem first_entry_bibtex_opened_witness:
  \<open>getBibTexFromPaperId (answering (js ''{"i":[{"l":"BibTeX","u":"y"},{"l":"EndNote","u":"x"}]}''))
         (js ''ABC'') []
       = (Normal (),
          [Fetch (citeUrl_of (js ''ABC'')), TabsCreate (Some (JStr (js ''y''))), Notify BibTexOpened])\<close>
proof -
  let ?b = \<open>js ''{"i":[{"l":"BibTeX","u":"y"},{"l":"EndNote","u":"x"}]}''\<close>
  let ?e = "[(js ''l'', JStr (js ''BibTeX'')), (js ''u'', JStr (js ''y''))]"
  let ?es = "[JObj [(js ''l'', JStr (js ''EndNote'')), (js ''u'', JStr (js ''x''))]]"
  let ?kvs = "[(js ''i'', JArr (JObj ?e # ?es))]"
  have h1: "fetch (answering ?b) (citeUrl_of (js ''ABC'')) = Response True (Some ?b)"
    by (simp add: answering_def)
  have h2: "JSON_parse ?b = Some (JObj ?kvs)" by code_simp
  have h3: "own_property ?kvs (js ''i'') = Some (JArr (JObj ?e # ?es))" by code_simp
  have h4: "own_property ?e (js ''l'') = Some (JStr (js ''BibTeX''))" by code_simp
  have h5: "own_property ?e (js ''u'') = Some (JStr (js ''y''))" by code_simp
  have h6: "tabs_create (answering ?b) ([] @ [Fetch (citeUrl_of (js ''ABC''))]) (own_property ?e (js ''u''))"
    by (simp add: answering_def)
  from first_entry_bibtex_opened [OF h1 h2 h3 h4 h6] show ?thesis
    by (simp add: h5)
qed

text \<open>
  C2 as stated fails when the entry labelled BibTeX is not the first: the citation page
  is opened, not the entry's URL \<open>y\<close>.
\<close>

theorem bibtex_not_first_counterexample:
  \<open>JSON_parse (js ''{"i":[{"l":"EndNote","u":"x"},{"l":"BibTeX","u":"y"}]}'')
     = Some (JObj [(js ''i'', JArr [JObj [(js ''l'', JStr (js ''EndNote'')), (js ''u'', JStr (js ''x''))],
                                   JObj [(js ''l'', JStr (js ''BibTeX'')), (js ''u'', JStr (js ''y''))]])])
   \<and> getBibTexFromPaperId (answering (js ''{"i":[{"l":"EndNote","u":"x"},{"l":"BibTeX","u":"y"}]}''))
         (js ''ABC'') []
       = (Normal (),
          [Fetch (js ''https://scholar.google.com/scholar?output=gsb-cite&hl=en&q=info:ABC:scholar.google.com/''),
           TabsCreate (Some (JStr (js ''https://scholar.google.com/scholar?output=gsb-cite&hl=en&q=info:ABC:scholar.google.com/''))),
           Notify CitationPageOpened])
   \<and> TabsCreate (Some (JStr (js ''y'')))
       \<notin> set (snd (getBibTexFromPaperId
                      (answering (js ''{"i":[{"l":"EndNote","u":"x"},{"l":"BibTeX","u":"y"}]}''))
                      (js ''ABC'') []))\<close>
  by code_simp

text \<open>
  C3, as the code has it: the anchor scan belongs to the handler of the inner \<open>try\<close>.
  A body that is not JSON is scanned, and the \<open>href\<close> of a matching anchor is the tab
  asked for. A body that is JSON without a first entry labelled BibTeX is not scanned:
  the citation page is the tab asked for.
\<close>

theorem anchor_scan_only_without_json:
  assumes "fetch E (citeUrl_of paperId) = Response True (Some citeText)"
  shows "(JSON_parse citeText = None \<and> String_match citeText bibtex_anchor_pattern = Some (Some href)
          \<longrightarrow> getBibTexFromPaperId E paperId tr =
               (if tabs_create E (tr @ [Fetch (citeUrl_of paperId)]) (Some (JStr href))
                then (Normal (), tr @ [Fetch (citeUrl_of paperId), TabsCreate (Some (JStr href)),
                                       Notify BibTexOpened])
                else (Throw, tr @ [Fetch (citeUrl_of paperId), TabsCreate (Some (JStr href))])))
       \<and> (JSON_parse citeText = Some citeData \<and> first_format_url citeData = None
          \<longrightarrow> getBibTexFromPaperId E paperId tr =
               (if tabs_create E (tr @ [Fetch (citeUrl_of paperId)]) (Some (JStr (citeUrl_of paperId)))
                then (Normal (), tr @ [Fetch (citeUrl_of paperId),
                                       TabsCreate (Some (JStr (citeUrl_of paperId))),
                                       Notify CitationPageOpened])
                else (Throw, tr @ [Fetch (citeUrl_of paperId),
                                   TabsCreate (Some (JStr (citeUrl_of paperId)))])))"
  using assms
  by (auto simp: getBibTexFromPaperId_def html_parsing_def open_citation_page_def
        create_tab_def Let_def)

theorem anchor_scan_only_without_json_witness:
  \<open>JSON_parse (js ''<a href="http://x/y.bib">BibTeX</a>'') = None
   \<and> String_match (js ''<a href="http://x/y.bib">BibTeX</a>'') bibtex_anchor_pattern
       = Some (Some (js ''http://x/y.bib''))
   \<and> getBibTexFromPaperId (answering (js ''<a href="http://x/y.bib">BibTeX</a>'')) (js ''ABC'') []
       = (Normal (),
          [Fetch (citeUrl_of (js ''ABC'')), TabsCreate (Some (JStr (js ''http://x/y.bib''))),
           Notify BibTexOpened])
   \<and> JSON_parse (js ''{"i":[]}'') = Some (JObj [(js ''i'', JArr [])])
   \<and> first_format_url (JObj [(js ''i'', JArr [])]) = None
   \<and> getBibTexFromPaperId (answering (js ''{"i":[]}'')) (js ''ABC'') []
       = (Normal (),
          [Fetch (citeUrl_of (js ''ABC'')), TabsCreate (Some (JStr (citeUrl_of (js ''ABC'')))),
           Notify CitationPageOpened])\<close>
proof -
  let ?a = \<open>js ''<a href="http://x/y.bib">BibTeX</a>''\<close>
  let ?j = \<open>js ''{"i":[]}''\<close>
  have a1: "fetch (answering ?a) (citeUrl_of (js ''ABC'')) = Response True (Some ?a)"
    by (simp add: answering_def)
  have a2: "JSON_parse ?a = None" by code_simp
  have a3: "String_match ?a bibtex_anchor_pattern = Some (Some (js ''http://x/y.bib''))"
    by code_simp
  have j1: "fetch (answering ?j) (citeUrl_of (js ''ABC'')) = Response True (Some ?j)"
    by (simp add: answering_def)
  have j2: "JSON_parse ?j = Some (JObj [(js ''i'', JArr [])])" by code_simp
  have j3: "first_format_url (JObj [(js ''i'', JArr [])]) = None" by code_simp
  have t: "tabs_create (answering b) tr u" for b tr u
    by (simp add: answering_def)
  from anchor_scan_only_without_json [OF a1, of "js ''http://x/y.bib''" "[]"]
    anchor_scan_only_without_json [OF j1, of _ "[]" "JObj [(js ''i'', JArr [])]"]
  show ?thesis
    using a2 a3 j2 j3 by (simp add: t)
qed

text \<open>
  C3 as stated fails in its second case: this body is JSON without any entry, the anchor
  pattern matches its text (capturing a comma), and yet the citation page is opened.
\<close>

theorem anchor_in_json_counterexample:
  \<open>JSON_parse (js ''["href=","u","x>BibTeX</a>"]'')
     = Some (JArr [JStr (js ''href=''), JStr (js ''u''), JStr (js ''x>BibTeX</a>'')])
   \<and> String_match (js ''["href=","u","x>BibTeX</a>"]'') bibtex_anchor_pattern = Some (Some (js '',''))
   \<and> getBibTexFromPaperId (answering (js ''["href=","u","x>BibTeX</a>"]'')) (js ''ABC'') []
       = (Normal (),
          [Fetch (js ''https://scholar.google.com/scholar?output=gsb-cite&hl=en&q=info:ABC:scholar.google.com/''),
           TabsCreate (Some (JStr (js ''https://scholar.google.com/scholar?output=gsb-cite&hl=en&q=info:ABC:scholar.google.com/''))),
           Notify CitationPageOpened])
   \<and> TabsCreate (Some (JStr (js '','')))
       \<notin> set (snd (getBibTexFromPaperId (answering (js ''["href=","u","x>BibTeX</a>"]''))
                      (js ''ABC'') []))\<close>
  by code_simp

section \<open>Properties of the pipeline\<close>

text \<open>
  C4 says that, with no identifier found, the tab opened for \<open>Attention Is All You Need\<close>
  is the search page with \<open>q=Attention%20Is%20All%20You%20Need\<close>, the percent-encoded
  normalized input. It is not: line 17 joins the words with \<open>+\<close>, line 40 hands that
  string on, and \<open>encodeURIComponent\<close> at line 182 escapes the plus signs once more, so
  the query asked for is \<open>Attention%2BIs%2BAll%2BYou%2BNeed\<close>. The simplified variant,
  which joins with a space, opens exactly the URL of the claim.
\<close>

theorem attention_fallback_double_encoded:
  "extractPaperIdFromResponse (js ''<html></html>'') = None
   \<and> clean (js ''Attention Is All You Need'') = js ''Attention+Is+All+You+Need''
   \<and> searchForBibTex (answering (js ''<html></html>'')) (js ''Attention Is All You Need'') []
       = (Normal (),
          [Fetch (js ''https://scholar.google.com/scholar?oi=gsb95&output=gsb&hl=en&q=Attention%2BIs%2BAll%2BYou%2BNeed''),
           TabsCreate (Some (JStr (js ''https://scholar.google.com/scholar?hl=en&q=Attention%2BIs%2BAll%2BYou%2BNeed''))),
           Notify (FoundSearchResults (js ''Attention Is All You Need''))])
   \<and> TabsCreate (Some (JStr (js ''https://scholar.google.com/scholar?hl=en&q=Attention%20Is%20All%20You%20Need'')))
       \<notin> set (snd (searchForBibTex (answering (js ''<html></html>''))
                      (js ''Attention Is All You Need'') []))
   \<and> searchForBibTex_simplified (answering (js ''<html></html>'')) (js ''Attention Is All You Need'') []
       = (Normal (),
          [TabsCreate (Some (JStr (js ''https://scholar.google.com/scholar?hl=en&q=Attention%20Is%20All%20You%20Need''))),
           Notify (SearchingFor (js ''Attention Is All You Need''))])"
  by code_simp

text \<open>
  C1 says that \<open>searchForBibTex\<close> never passes an exception on. It does, from its own
  handler: when the search request fails and the tab for the search page cannot be
  opened, \<open>openScholarSearch\<close> raises again at line 53, outside any \<open>try\<close>, and the
  promise is rejected without the error notification. The same happens, with every
  collaborator working, for a keyword that holds an unpaired surrogate, on which
  \<open>encodeURIComponent\<close> raises URIError.
\<close>

theorem fallback_rejected_propagates:
  "searchForBibTex unreachable (js ''a'') []
     = (Throw,
        [Fetch (js ''https://scholar.google.com/scholar?oi=gsb95&output=gsb&hl=en&q=a''),
         TabsCreate (Some (JStr (js ''https://scholar.google.com/scholar?hl=en&q=a'')))])
   \<and> searchForBibTex (answering []) [0xD800] [] = (Throw, [])"
  by code_simp

section \<open>Properties of the percent-encoding\<close>

text \<open>
  C9, as the code has it: for every query string without an unpaired surrogate, and so for
  every normalized keyword \<open>clean keyword\<close> on which \<open>encodeURIComponent\<close> does not
  raise, decoding the encoding gives the string back.
\<close>

theorem decode_encode_roundtrip:
  assumes "isWellFormed s"
  shows "Option.bind (encodeURIComponent s) decodeURIComponent = Some s"
proof -
  from assms obtain e where e: "encodeURIComponent s = Some e"
    using encode_defined_iff [of s] by auto
  then show ?thesis by (simp add: decode_encode)
qed

theorem decode_encode_roundtrip_witness:
  "clean (js ''  C++ & caf'' @ [0xE9] @ js ''  100% '' @ [0xD83D, 0xDE00])
     = js ''C+++&+caf'' @ [0xE9] @ js ''+100%+'' @ [0xD83D, 0xDE00]
   \<and> isWellFormed (js ''C+++&+caf'' @ [0xE9] @ js ''+100%+'' @ [0xD83D, 0xDE00])
   \<and> encodeURIComponent (js ''C+++&+caf'' @ [0xE9] @ js ''+100%+'' @ [0xD83D, 0xDE00])
       = Some (js ''C%2B%2B%2B%26%2Bcaf%C3%A9%2B100%25%2B%F0%9F%98%80'')
   \<and> decodeURIComponent (js ''C%2B%2B%2B%26%2Bcaf%C3%A9%2B100%25%2B%F0%9F%98%80'')
       = Some (js ''C+++&+caf'' @ [0xE9] @ js ''+100%+'' @ [0xD83D, 0xDE00])"
proof -
  let ?q = "js ''C+++&+caf'' @ [0xE9] @ js ''+100%+'' @ [0xD83D, 0xDE00]"
  have c: "clean (js ''  C++ & caf'' @ [0xE9] @ js ''  100% '' @ [0xD83D, 0xDE00]) = ?q"
    by code_simp
  have w: "isWellFormed ?q" by code_simp
  have e: "encodeURIComponent ?q = Some (js ''C%2B%2B%2B%26%2Bcaf%C3%A9%2B100%25%2B%F0%9F%98%80'')"
    by (simp add: js_def uriUnescaped_def isLowSurrogate_def isHighSurrogate_def pct_utf8_def
        utf8_def pct_def hexdigit_def pair_cp_def)
  have d: "decodeURIComponent (js ''C%2B%2B%2B%26%2Bcaf%C3%A9%2B100%25%2B%F0%9F%98%80'') = Some ?q"
    using decode_encode_roundtrip [OF w] unfolding e by (simp only: Option.bind.simps)
  from c w e d show ?thesis by (intro conjI)
qed

text \<open>
  C9 as stated fails for a normalized query that holds an unpaired surrogate: there is no
  encoding to decode, \<open>encodeURIComponent\<close> raises URIError.
\<close>

theorem unpaired_surrogate_counterexample:
  "clean (js ''deep nets '' @ [0xD83D]) = js ''deep+nets+'' @ [0xD83D]
   \<and> encodeURIComponent (clean (js ''deep nets '' @ [0xD83D])) = None
   \<and> Option.bind (encodeURIComponent (clean (js ''deep nets '' @ [0xD83D]))) decodeURIComponent
       \<noteq> Some (clean (js ''deep nets '' @ [0xD83D]))"
  by code_simp

end
